theory Spec2Isabelle
  imports Main "HOL-Library.Word" "HOL-Library.AList"
begin

unbundle bit_operations_syntax

section \<open>Machine integers, byte strings, errors and panics\<close>

text \<open>
  Go's fixed-width integers are words. A signed integer (\<open>int32\<close>, \<open>int64\<close>) is a word
  of the same width read with \<open>sint\<close>; the conversion \<open>uint64(x)\<close> of an \<open>int64\<close> keeps
  the bits, the conversion \<open>uint64(x)\<close> of an \<open>int32\<close> sign-extends (\<open>scast\<close>) and
  \<open>uint32(x)\<close> of a \<open>uint64\<close> truncates (\<open>ucast\<close>). Go's \<open>int\<close> is \<open>int\<close>; no claim
  depends on its width. A \<open>[]byte\<close> is a byte list; where the code tells \<open>nil\<close> from an
  empty slice the model uses an option.
\<close>

type_synonym byte = "8 word"
type_synonym bytes = "byte list"
type_synonym uint32 = "32 word"
type_synonym int32 = "32 word"
type_synonym uint64 = "64 word"
type_synonym int64 = "64 word"
type_synonym uint256 = "256 word"
type_synonym Address = "160 word"
type_synonym Hash = "256 word"

text \<open>
  The error values of package \<open>vm\<close> the code compares by identity are constructors of
  their own; \<open>Errorf\<close> is an error made by \<open>fmt.Errorf\<close>; \<open>RuntimeError\<close> is a Go run-time
  error (index or slice bounds out of range, nil dereference, failed type assertion),
  which implements \<open>error\<close>; \<open>EngineError\<close> is an error value returned by the engine.
\<close>

datatype error =
    ErrOutOfGas
  | ErrExecutionReverted
  | errStopToken
  | ErrGasUintOverflow
  | Errorf string
  | RuntimeError string
  | EngineError string

text \<open>The value a \<open>panic\<close> carries: an \<open>error\<close> or a plain string.\<close>

datatype panic_value = PanicError error | PanicString string

text \<open>
  A computation that may panic returns \<open>Inl\<close> of the panic's value; \<open>on_ok m f\<close>
  continues with \<open>f\<close> when \<open>m\<close> did not panic.
\<close>

definition on_ok :: "panic_value + 'a \<Rightarrow> ('a \<Rightarrow> panic_value + 'b) \<Rightarrow> panic_value + 'b" where
  "on_ok m f = (case m of Inl p \<Rightarrow> Inl p | Inr x \<Rightarrow> f x)"

section \<open>256-bit integers and the operand stack\<close>

text \<open>
  \<open>uint256.Int.Bytes32\<close> is the big-endian 32-byte form and \<open>uint256.Int.Bytes\<close> the
  big-endian form without leading zero bytes (package holiman/uint256).
\<close>

definition Bytes32 :: "uint256 \<Rightarrow> bytes" where
  "Bytes32 z = map (\<lambda>i. ucast (drop_bit (8 * (31 - i)) z)) [0..<32]"

definition Bytes :: "uint256 \<Rightarrow> bytes" where
  "Bytes z = dropWhile (\<lambda>b. b = 0) (Bytes32 z)"

text \<open>\<open>uint256.NewInt\<close> of a \<open>uint64\<close>.\<close>

definition NewInt :: "uint64 \<Rightarrow> uint256" where
  "NewInt v = ucast v"

text \<open>
  The operand stack is the slice \<open>data\<close> of \<open>Stack\<close>: \<open>push\<close> appends, so the top of the
  stack is the last element; \<open>peek\<close> indexes \<open>data[len-1]\<close> and \<open>Back(n)\<close> indexes
  \<open>data[len-n-1]\<close>, each a run-time panic when the index is out of range.
\<close>

type_synonym Stack = "uint256 list"

definition push :: "uint256 \<Rightarrow> Stack \<Rightarrow> Stack" where
  "push v st = st @ [v]"

definition peek :: "Stack \<Rightarrow> panic_value + uint256" where
  "peek st = (if st = [] then Inl (PanicError (RuntimeError ''index out of range''))
              else Inr (last st))"

section \<open>The engine's interface\<close>

text \<open>
  The Wasm engine (package zkwasm-wasmi) is an external collaborator: its state is a
  type parameter and the calls the interpreter makes on it are the fields of a record of
  functions handed to the model.
\<close>

record 'e EngineApi =
  TraceMemoryChange :: "uint32 \<Rightarrow> uint32 \<Rightarrow> bytes \<Rightarrow> 'e \<Rightarrow> 'e"
  MemoryData :: "'e \<Rightarrow> bytes"
  GetLastPc :: "'e \<Rightarrow> uint32"
  SetWasmBinary :: "bytes \<Rightarrow> 'e \<Rightarrow> 'e"

section \<open>Guest memory view (memory.go)\<close>

text \<open>
  \<open>memoryInterceptor\<close> is an interface value; the only implementation is the Wasm
  interpreter, so the field says whether it is set. \<open>writeMemory\<close> and \<open>readMemory\<close> are
  the interpreter's methods the interceptor calls.
\<close>

record Memory =
  store :: bytes
  lastGasCost :: uint64
  memoryInterceptor :: bool

definition newMemoryFromSlice :: "bytes \<Rightarrow> bool \<Rightarrow> Memory" where
  "newMemoryFromSlice st mi = \<lparr>store = st, lastGasCost = 0, memoryInterceptor = mi\<rparr>"

definition writeMemory :: "'e EngineApi \<Rightarrow> uint64 \<Rightarrow> uint64 \<Rightarrow> bytes \<Rightarrow> 'e \<Rightarrow> 'e" where
  "writeMemory api offset size' val eng =
     TraceMemoryChange api (ucast offset) (ucast size') val eng"

text \<open>
  The slice expression \<open>data[lo:hi]\<close>: a run-time panic unless \<open>lo \<le> hi \<le> len(data)\<close>
  (the model does not track capacities beyond the length).
\<close>

definition slice :: "'a list \<Rightarrow> nat \<Rightarrow> nat \<Rightarrow> panic_value + 'a list" where
  "slice xs lo hi =
     (if lo \<le> hi \<and> hi \<le> length xs then Inr (take (hi - lo) (drop lo xs))
      else Inl (PanicError (RuntimeError ''slice bounds out of range'')))"

text \<open>The builtin \<open>copy(dst, src)\<close>: the first \<open>min(len(dst), len(src))\<close> elements.\<close>

definition copy :: "'a list \<Rightarrow> 'a list \<Rightarrow> 'a list" where
  "copy dst src = take (length dst) src @ drop (length src) dst"

definition readMemory :: "'e EngineApi \<Rightarrow> uint64 \<Rightarrow> uint64 \<Rightarrow> 'e \<Rightarrow> panic_value + bytes" where
  "readMemory api offset size' eng =
     slice (MemoryData api eng) (unat offset) (unat (offset + size'))"

text \<open>
  \<open>Memory.Set\<close>: with an interceptor the write goes to the engine; otherwise into
  \<open>store\<close>, which must already be large enough.
\<close>

definition Set_mem ::
  "'e EngineApi \<Rightarrow> uint64 \<Rightarrow> uint64 \<Rightarrow> bytes \<Rightarrow> Memory \<Rightarrow> 'e \<Rightarrow> panic_value + (Memory \<times> 'e)" where
  "Set_mem api offset size' val m eng =
     (if memoryInterceptor m then Inr (m, writeMemory api offset size' val eng)
      else if size' > 0 then
        (if offset + size' > of_nat (length (store m))
         then Inl (PanicString ''invalid memory: store empty'')
         else on_ok (slice (store m) (unat offset) (unat (offset + size'))) (\<lambda>dst.
                Inr (m\<lparr>store := take (unat offset) (store m) @ copy dst val
                                 @ drop (unat (offset + size')) (store m)\<rparr>, eng)))
      else Inr (m, eng))"

text \<open>\<open>Memory.GetCopy\<close>; a \<open>nil\<close> result is the empty list.\<close>

definition GetCopy ::
  "'e EngineApi \<Rightarrow> int64 \<Rightarrow> int64 \<Rightarrow> Memory \<Rightarrow> 'e \<Rightarrow> panic_value + bytes" where
  "GetCopy api offset size' m eng =
     (if size' = 0 then Inr []
      else if memoryInterceptor m then readMemory api offset size' eng
      else if int (length (store m)) > sint offset then
        (if sint size' < 0 then Inl (PanicError (RuntimeError ''makeslice: len out of range''))
         else on_ok (slice (store m) (unat offset) (unat (offset + size'))) (\<lambda>src.
                Inr (copy (replicate (unat size') 0) src)))
      else Inr [])"

section \<open>Contracts and scopes\<close>

text \<open>
  The fields of \<open>Contract\<close> the interpreter and the logger use. A \<open>nil\<close> input and an
  empty input are the same to the code (\<open>input == nil || len(input) == 0\<close>), so \<open>Input\<close>
  is a byte list.
\<close>

record Contract =
  Code :: bytes
  Input :: bytes
  Gas :: uint64
  self :: Address

text \<open>
  Modelled from the spec: \<open>Contract.UseGas\<close> (core/vm/contract.go is not among the
  sources). The gas meter "decrements the contract's remaining gas; raises out-of-gas":
  when the remaining gas is less than the amount nothing is charged and the call reports
  failure, otherwise the amount is subtracted.
\<close>

definition UseGas :: "uint64 \<Rightarrow> Contract \<Rightarrow> bool \<times> Contract" where
  "UseGas gas c = (if Gas c < gas then (False, c) else (True, c\<lparr>Gas := Gas c - gas\<rparr>))"

text \<open>
  A \<open>ScopeContext\<close> holds three pointers; \<open>Memory\<close> and \<open>Stack\<close> may be \<open>nil\<close> (the gas
  callback builds a scope with a contract only). The model keeps the contract by value
  and writes a charged contract back into the scope it came from.
\<close>

record ScopeContext =
  Memory :: "Memory option"
  Stack :: "Stack option"
  Contract :: Contract

definition nil_dereference :: panic_value where
  "nil_dereference = PanicError (RuntimeError ''invalid memory address or nil pointer dereference'')"

section \<open>Finalizers and pre-processors of host calls (wasm.go)\<close>

text \<open>
  An \<open>opCodeResultFn\<close> takes the host call's arguments and the scope; it may change
  the scope and, through the memory interceptor, the engine. It returns an error or
  \<open>nil\<close>, or panics.
\<close>

type_synonym 'e opCodeResultFn =
  "uint64 list \<Rightarrow> ScopeContext \<Rightarrow> 'e \<Rightarrow> panic_value + (error option \<times> ScopeContext \<times> 'e)"

definition AddressDestLen :: int where "AddressDestLen = 20"
definition SizeDestLen :: int where "SizeDestLen = 4"
definition Uint256DestLen :: int where "Uint256DestLen = 32"
definition Uint32DestLen :: int where "Uint32DestLen = 4"
definition Uint64DestLen :: int where "Uint64DestLen = 8"
definition HashDestLen :: int where "HashDestLen = 32"
definition BoolDestLen :: int where "BoolDestLen = 1"

text \<open>\<open>make([]byte, n)\<close> and the slice expression \<open>xs[lo:]\<close> with Go \<open>int\<close> operands.\<close>

definition make_bytes :: "int \<Rightarrow> panic_value + bytes" where
  "make_bytes n = (if n < 0 then Inl (PanicError (RuntimeError ''makeslice: len out of range''))
                   else Inr (replicate (nat n) 0))"

definition slice_from :: "'a list \<Rightarrow> int \<Rightarrow> panic_value + 'a list" where
  "slice_from xs lo =
     (if 0 \<le> lo \<and> lo \<le> int (length xs) then Inr (drop (nat lo) xs)
      else Inl (PanicError (RuntimeError ''slice bounds out of range'')))"

definition deref :: "'a option \<Rightarrow> panic_value + 'a" where
  "deref p = (case p of None \<Rightarrow> Inl nil_dereference | Some x \<Rightarrow> Inr x)"

definition copyLastStackItemToMemory :: "'e EngineApi \<Rightarrow> int \<Rightarrow> 'e opCodeResultFn" where
  "copyLastStackItemToMemory api destLen input scope eng =
     (if length input = 0
      then Inr (Some (Errorf ''last function param must be a destination pointer''), scope, eng)
      else
        let destOffset = input ! (length input - 1) in
        on_ok (deref (Stack scope)) (\<lambda>st.
        on_ok (peek st) (\<lambda>item.
        let lastBytes = Bytes item in
        on_ok (make_bytes destLen) (\<lambda>res.
        on_ok (slice_from res (destLen - int (length lastBytes))) (\<lambda>dst.
        let res' = take (nat (destLen - int (length lastBytes))) res @ copy dst lastBytes in
        on_ok (deref (Memory scope)) (\<lambda>m.
        on_ok (Set_mem api destOffset (of_nat (length res')) res' m eng) (\<lambda>(m', eng').
        Inr (None, scope\<lparr>Memory := Some m'\<rparr>, eng'))))))))"

section \<open>The trace recorder (logger)\<close>

datatype OpCodeFamily =
    OpCodeFamilyUnknown
  | OpCodeFamilyEVM
  | OpCodeFamilyWASM
  | OpCodeFamilyGAS

definition OpCodeFamily_String :: "OpCodeFamily \<Rightarrow> string" where
  "OpCodeFamily_String f =
     (if f = OpCodeFamilyWASM then ''WASM''
      else if f = OpCodeFamilyEVM then ''EVM''
      else if f = OpCodeFamilyGAS then ''GAS''
      else ''UNKNOWN'')"

text \<open>
  \<open>vm.OpCode\<close> is a byte. The numbers are the EVM's instruction encoding
  (core/vm/opcodes.go); the logger tells \<open>SLOAD\<close> and \<open>SSTORE\<close> from the rest.
  \<open>Op_call\<close> and \<open>Op_end\<close> are the WebAssembly encodings of \<open>call\<close> and \<open>end\<close>
  (package sbinet/wasm).
\<close>

type_synonym OpCode = byte

definition SLOAD :: OpCode where "SLOAD = 0x54"
definition SSTORE :: OpCode where "SSTORE = 0x55"
definition Op_call :: byte where "Op_call = 0x10"
definition Op_end :: byte where "Op_end = 0x0b"

text \<open>
  The implementations of the interface \<open>vm.OpCodeInfo\<close>: \<open>wasmOpcodeInfo\<close> (wasm.go),
  \<open>GasOpCodeInfo\<close> and \<open>EvmOpCodeInfo\<close> (logger), with the methods \<open>Code\<close>, \<open>GetParams\<close>
  and \<open>Pc\<close>. \<open>String\<close> of an EVM opcode is a table of package \<open>vm\<close>, a parameter of
  the formatter below.
\<close>

datatype OpCodeInfo =
    wasmOpcodeInfo uint32 byte string "uint64 list"
  | GasOpCodeInfo byte
  | EvmOpCodeInfo byte

fun Code_of :: "OpCodeInfo \<Rightarrow> byte" where
  "Code_of (wasmOpcodeInfo pc opc nm ps) = opc"
| "Code_of (GasOpCodeInfo b) = b"
| "Code_of (EvmOpCodeInfo b) = b"

fun GetParams :: "OpCodeInfo \<Rightarrow> uint64 list" where
  "GetParams (wasmOpcodeInfo pc opc nm ps) = ps"
| "GetParams (GasOpCodeInfo b) = []"
| "GetParams (EvmOpCodeInfo b) = []"

fun Pc_of :: "OpCodeInfo \<Rightarrow> uint64" where
  "Pc_of (wasmOpcodeInfo pc opc nm ps) = ucast pc"
| "Pc_of (GasOpCodeInfo b) = 0"
| "Pc_of (EvmOpCodeInfo b) = 0"

text \<open>
  \<open>Storage\<close> is a Go map from slots to values, kept as an association list with one
  entry for each key (\<open>AList.update\<close> stores, \<open>map_of\<close> looks up).
\<close>

type_synonym Storage = "(Hash \<times> Hash) list"

text \<open>
  \<open>WasmLog\<close>. The slices \<open>Memory\<close>, \<open>Stack\<close> and \<open>ReturnData\<close> and the map \<open>Storage\<close>
  are options, \<open>None\<close> for \<open>nil\<close>: the formatter tells \<open>nil\<close> from empty. The fields
  \<open>Gas\<close>, \<open>Memory\<close> and \<open>Stack\<close> carry the prefix \<open>Log\<close> here.
\<close>

record WasmLog =
  Pc :: uint64
  OpFamily :: OpCodeFamily
  Op :: OpCodeInfo
  Params :: "uint64 list"
  LogGas :: uint64
  GasCost :: uint64
  LogMemory :: "bytes option"
  MemoryOffset :: uint32
  MemorySize :: uint32
  LogStack :: "uint256 list option"
  ReturnData :: "bytes option"
  Storage :: "Storage option"
  Depth :: int
  RefundCounter :: uint64
  Err :: "error option"
  Keep :: uint32
  Drop :: uint32

record WasmFnCallLog =
  FnIndex :: uint32
  MaxStackHeight :: uint32
  NumLocals :: uint32
  FnName :: string

record WasmGlobal =
  global_Pc :: uint64
  global_Index :: uint64
  global_Op :: string
  global_Params :: "uint64 list"
  global_Value :: uint64

record MemoryChangeInfo =
  Offset :: uint32
  Value :: bytes

text \<open>The logger's configuration (\<open>logger.Config\<close>).\<close>

record logger_Config =
  EnableMemory :: bool
  DisableStack :: bool
  DisableStorage :: bool
  EnableReturnData :: bool
  logger_Debug :: bool
  Limit :: int

text \<open>
  What the logger uses of its \<open>env *vm.EVM\<close> (set by \<open>CaptureStart\<close>, and taken to be
  set): \<open>Cancel\<close> raises the abort flag; \<open>StateDB.GetRefund\<close> and \<open>StateDB.GetState\<close>
  read the world state, an external collaborator.
\<close>

record EVMEnv =
  abort :: bool
  GetRefund :: uint64
  GetState :: "Address \<Rightarrow> Hash \<Rightarrow> Hash"

definition Cancel :: "EVMEnv \<Rightarrow> EVMEnv" where
  "Cancel e = e\<lparr>abort := True\<rparr>"

record WebAssemblyLogger =
  cfg :: logger_Config
  env :: EVMEnv
  storage :: "Address \<rightharpoonup> Storage"
  logs :: "WasmLog list"
  functionCalls :: "WasmFnCallLog list"
  globals :: "WasmGlobal list"
  output' :: bytes
  globalMemory :: "(uint32 \<rightharpoonup> bytes) option"
  err :: "error option"
  gasLimit :: uint64
  usedGas :: uint64
  interrupt :: uint32
  reason :: "error option"

text \<open>The check both captures share: has the configured number of logs been reached?\<close>

definition limit_reached :: "WebAssemblyLogger \<Rightarrow> bool" where
  "limit_reached l = (Limit (cfg l) \<noteq> 0 \<and> Limit (cfg l) \<le> int (length (logs l)))"

definition CaptureWasmState ::
  "uint64 \<Rightarrow> OpCodeInfo \<Rightarrow> MemoryChangeInfo option \<Rightarrow> ScopeContext \<Rightarrow> int \<Rightarrow> uint32 \<Rightarrow> uint32
     \<Rightarrow> WebAssemblyLogger \<Rightarrow> panic_value + WebAssemblyLogger" where
  "CaptureWasmState pc op memory scope depth' drop' keep' l =
     (if interrupt l > 0 then Inr (l\<lparr>env := Cancel (env l)\<rparr>)
      else if limit_reached l then Inr l
      else
        let (memData, memOffset, memLen) =
              (case memory of
                 Some mc \<Rightarrow>
                   if EnableMemory (cfg l)
                   then (Some (copy (replicate (length (Value mc)) 0) (Value mc)), Offset mc,
                         of_nat (length (Value mc)))
                   else (None, 0, 0)
               | None \<Rightarrow> (None, 0, 0)) in
        on_ok (if \<not> DisableStack (cfg l)
               then on_ok (deref (Stack scope)) (\<lambda>st. Inr (Some st))
               else Inr None) (\<lambda>stck.
        let log = \<lparr>Pc = Pc_of op, OpFamily = OpCodeFamilyWASM, Op = op, Params = [],
                   LogGas = Gas (Contract scope), GasCost = 0, LogMemory = memData,
                   MemoryOffset = memOffset, MemorySize = memLen, LogStack = stck,
                   ReturnData = None, Storage = None, Depth = depth',
                   RefundCounter = GetRefund (env l), Err = None, Keep = keep', Drop = drop'\<rparr>
        in Inr (l\<lparr>logs := logs l @ [log]\<rparr>)))"

text \<open>
  The test the two captures below make on the last log, which must be a Wasm \<open>call\<close>:
  they panic when \<open>lastLog.OpFamily != OpCodeFamilyWASM || Code() != Op_call\<close>, that is,
  when \<open>is_wasm_call\<close> fails.
\<close>

definition is_wasm_call :: "WasmLog \<Rightarrow> bool" where
  "is_wasm_call lg = (OpFamily lg = OpCodeFamilyWASM \<and> Code_of (Op lg) = Op_call)"

definition CaptureGasState ::
  "uint64 \<Rightarrow> ScopeContext \<Rightarrow> int \<Rightarrow> error option \<Rightarrow> WebAssemblyLogger
     \<Rightarrow> panic_value + WebAssemblyLogger" where
  "CaptureGasState gasCost scope depth' err' l =
     (if interrupt l > 0 then Inr (l\<lparr>env := Cancel (env l)\<rparr>)
      else if logs l = [] then Inl (PanicError (RuntimeError ''index out of range''))
      else
        let lastLog = logs l ! (length (logs l) - 1) in
        if \<not> is_wasm_call lastLog then Inl (PanicString ''trace order is corrupted'')
        else
          let log = \<lparr>Pc = Pc lastLog, OpFamily = OpCodeFamilyGAS, Op = GasOpCodeInfo 0,
                     Params = [], LogGas = Gas (Contract scope), GasCost = gasCost,
                     LogMemory = LogMemory lastLog, MemoryOffset = MemoryOffset lastLog,
                     MemorySize = MemorySize lastLog, LogStack = LogStack lastLog,
                     ReturnData = Some [], Storage = None, Depth = depth',
                     RefundCounter = RefundCounter lastLog, Err = err', Keep = 0, Drop = 0\<rparr>
          in Inr (l\<lparr>logs := (logs l)[length (logs l) - 1 := log]\<rparr>))"

text \<open>
  \<open>CaptureState\<close>. The snapshot \<open>mem\<close> of the scope's memory is computed and not used;
  what remains of it is the dereference of \<open>scope.Memory\<close> when \<open>EnableMemory\<close> is set.
  \<open>common.Hash(x.Bytes32())\<close> of a stack item is the item itself, as a \<open>Hash\<close>. A
  missing entry of \<open>l.storage\<close> and a \<open>nil\<close> entry are the same to the code.
\<close>

definition CaptureState ::
  "uint64 \<Rightarrow> OpCode \<Rightarrow> uint64 \<Rightarrow> uint64 \<Rightarrow> ScopeContext \<Rightarrow> bytes \<Rightarrow> int \<Rightarrow> error option
     \<Rightarrow> WebAssemblyLogger \<Rightarrow> panic_value + WebAssemblyLogger" where
  "CaptureState pc op gas cost scope rData depth' err' l =
     (if interrupt l > 0 then Inr (l\<lparr>env := Cancel (env l)\<rparr>)
      else if limit_reached l then Inr l
      else
        on_ok (if EnableMemory (cfg l) then on_ok (deref (Memory scope)) (\<lambda>m. Inr ())
               else Inr ()) (\<lambda>u.
        on_ok (deref (Stack scope)) (\<lambda>stackData.
        let contract = Contract scope;
            stck = (if \<not> DisableStack (cfg l) then Some stackData else None);
            stackLen = length stackData;
            (storage', l1) =
              (if \<not> DisableStorage (cfg l) \<and> (op = SLOAD \<or> op = SSTORE) then
                 let st0 = (case storage l (self contract) of None \<Rightarrow> [] | Some m \<Rightarrow> m)
                 in if op = SLOAD \<and> stackLen \<ge> 1 then
                      let address = stackData ! (stackLen - 1);
                          val = GetState (env l) (self contract) address;
                          st1 = AList.update address val st0
                      in (Some st1, l\<lparr>storage := (storage l)(self contract \<mapsto> st1)\<rparr>)
                    else if op = SSTORE \<and> stackLen \<ge> 2 then
                      let val = stackData ! (stackLen - 2);
                          address = stackData ! (stackLen - 1);
                          st1 = AList.update address val st0
                      in (Some st1, l\<lparr>storage := (storage l)(self contract \<mapsto> st1)\<rparr>)
                    else (None, l\<lparr>storage := (storage l)(self contract \<mapsto> st0)\<rparr>)
               else (None, l));
            rdata = (if EnableReturnData (cfg l)
                     then Some (copy (replicate (length rData) 0) rData) else None)
        in
        if length (logs l1) = 0 then Inl (PanicString ''trace order is corrupted'')
        else
          let lastLog = logs l1 ! (length (logs l1) - 1) in
          if \<not> is_wasm_call lastLog then Inl (PanicString ''trace order is corrupted'')
          else
            let logs' = take (length (logs l1) - 1) (logs l1);
                log = \<lparr>Pc = Pc lastLog, OpFamily = OpCodeFamilyEVM, Op = EvmOpCodeInfo op,
                       Params = [], LogGas = gas, GasCost = cost,
                       LogMemory = LogMemory lastLog, MemoryOffset = MemoryOffset lastLog,
                       MemorySize = MemorySize lastLog, LogStack = LogStack lastLog,
                       ReturnData = rdata, Storage = storage', Depth = depth',
                       RefundCounter = GetRefund (env l1), Err = err', Keep = 0, Drop = 0\<rparr>
            in Inr (l1\<lparr>logs := logs' @ [log]\<rparr>))))"

text \<open>
  The tables of package \<open>vm\<close> and the error texts the formatter prints are parameters:
  \<open>WasmOpCodeToName\<close>, \<open>OpCode.String\<close> and \<open>error.Error\<close>.
\<close>

record Rendering =
  WasmOpCodeToName :: "byte \<Rightarrow> string option"
  OpCode_String :: "OpCode \<Rightarrow> string"
  Error_text :: "error \<Rightarrow> string"

definition CaptureGlobalVariable ::
  "Rendering \<Rightarrow> uint64 \<Rightarrow> OpCodeInfo option \<Rightarrow> uint64 \<Rightarrow> WebAssemblyLogger
     \<Rightarrow> panic_value + WebAssemblyLogger" where
  "CaptureGlobalVariable rn index op value' l =
     on_ok (deref op) (\<lambda>op'.
       let global = \<lparr>global_Pc = Pc_of op', global_Index = index,
                      global_Op = (case WasmOpCodeToName rn (Code_of op') of
                                     None \<Rightarrow> [] | Some nm \<Rightarrow> nm),
                      global_Params = GetParams op', global_Value = value'\<rparr>
       in Inr (l\<lparr>globals := globals l @ [global]\<rparr>))"

definition CaptureGlobalMemoryState ::
  "(uint32 \<times> bytes) list \<Rightarrow> WebAssemblyLogger \<Rightarrow> WebAssemblyLogger" where
  "CaptureGlobalMemoryState gm l =
     (let m0 = (case globalMemory l of None \<Rightarrow> Map.empty | Some m \<Rightarrow> m)
      in l\<lparr>globalMemory := Some (foldl (\<lambda>m (k, v). m(k \<mapsto> v)) m0 gm)\<rparr>)"

definition CaptureWasmFunctionCall ::
  "uint32 \<Rightarrow> uint32 \<Rightarrow> uint32 \<Rightarrow> string \<Rightarrow> WebAssemblyLogger \<Rightarrow> WebAssemblyLogger" where
  "CaptureWasmFunctionCall fnIndex maxStackHeight numLocals fnName l =
     l\<lparr>functionCalls := functionCalls l @
          [\<lparr>FnIndex = fnIndex, MaxStackHeight = maxStackHeight, NumLocals = numLocals,
            FnName = fnName\<rparr>]\<rparr>"

definition CaptureEnd :: "bytes \<Rightarrow> uint64 \<Rightarrow> error option \<Rightarrow> WebAssemblyLogger \<Rightarrow> WebAssemblyLogger" where
  "CaptureEnd out gasUsed err' l = l\<lparr>output' := out, err := err'\<rparr>"

definition Stop :: "error option \<Rightarrow> WebAssemblyLogger \<Rightarrow> WebAssemblyLogger" where
  "Stop err' l = l\<lparr>reason := err', interrupt := 1\<rparr>"

definition CaptureTxStart :: "uint64 \<Rightarrow> WebAssemblyLogger \<Rightarrow> WebAssemblyLogger" where
  "CaptureTxStart gl l = l\<lparr>gasLimit := gl\<rparr>"

definition CaptureTxEnd :: "uint64 \<Rightarrow> WebAssemblyLogger \<Rightarrow> WebAssemblyLogger" where
  "CaptureTxEnd restGas l = l\<lparr>usedGas := gasLimit l - restGas\<rparr>"

section \<open>The result formatter\<close>

text \<open>
  Lower-case hexadecimal: \<open>fmt.Sprintf("%x", b)\<close> of a byte slice or array prints two
  digits for each byte, \<open>hexutil.Encode\<close> puts \<open>0x\<close> before them; \<open>%x\<close> of a single
  number and \<open>uint256.Int.Hex\<close> print no leading zeroes.
\<close>

definition hex_digit :: "nat \<Rightarrow> char" where
  "hex_digit n = ''0123456789abcdef'' ! (n mod 16)"

definition hex_byte :: "byte \<Rightarrow> string" where
  "hex_byte b = [hex_digit (unat b div 16), hex_digit (unat b mod 16)]"

definition hex_bytes :: "bytes \<Rightarrow> string" where
  "hex_bytes bs = concat (map hex_byte bs)"

definition hex_number :: "bytes \<Rightarrow> string" where
  "hex_number bs =
     (let ds = dropWhile (\<lambda>c. c = CHR ''0'') (hex_bytes bs)
      in if ds = [] then ''0'' else ds)"

definition hexutil_Encode :: "bytes \<Rightarrow> string" where
  "hexutil_Encode bs = ''0x'' @ hex_bytes bs"

definition Hex :: "uint256 \<Rightarrow> string" where
  "Hex z = ''0x'' @ hex_number (Bytes32 z)"

definition ToLower_char :: "char \<Rightarrow> char" where
  "ToLower_char c =
     (if of_char c \<ge> (65::nat) \<and> of_char c \<le> (90::nat) then char_of (of_char c + (32::nat)) else c)"

definition ToLower :: "string \<Rightarrow> string" where
  "ToLower s = map ToLower_char s"

fun String_of :: "Rendering \<Rightarrow> OpCodeInfo \<Rightarrow> string" where
  "String_of rn (wasmOpcodeInfo pc opc nm ps) = nm"
| "String_of rn (GasOpCodeInfo b) = ''gas''"
| "String_of rn (EvmOpCodeInfo b) = OpCode_String rn b"

definition OpName :: "Rendering \<Rightarrow> WasmLog \<Rightarrow> panic_value + string" where
  "OpName rn s =
     (if OpFamily s = OpCodeFamilyWASM then
        (case WasmOpCodeToName rn (Code_of (Op s)) of
           None \<Rightarrow> Inr (''unknown opcode name: (code=0x'' @ hex_number [Code_of (Op s)]
                        @ '', family='' @ String_of rn (Op s) @ '')'')
         | Some opName \<Rightarrow> Inr opName)
      else if OpFamily s = OpCodeFamilyEVM then Inr (''evm_'' @ ToLower (String_of rn (Op s)))
      else if OpFamily s = OpCodeFamilyGAS then Inr (ToLower (String_of rn (Op s)))
      else Inl (PanicString ''unknown family, not possible''))"

definition OpParams :: "WasmLog \<Rightarrow> uint64 list" where
  "OpParams s = (if Code_of (Op s) = Op_end then [] else GetParams (Op s))"

definition ErrorString :: "Rendering \<Rightarrow> WasmLog \<Rightarrow> string" where
  "ErrorString rn s = (case Err s of Some e \<Rightarrow> Error_text rn e | None \<Rightarrow> [])"

text \<open>\<open>WasmLogRes\<close>; its pointer fields are options. The field names carry \<open>res_\<close>.\<close>

record WasmLogRes =
  res_Pc :: uint64
  res_OpFamily :: string
  res_Params :: "uint64 list"
  res_Op :: string
  res_Gas :: uint64
  res_GasCost :: uint64
  res_Depth :: int
  res_Error :: string
  res_Stack :: "string list option"
  res_MemoryChanges :: "(uint32 \<rightharpoonup> string) option"
  res_Storage :: "(string \<rightharpoonup> string) option"
  res_RefundCounter :: uint64
  res_Drop :: uint32

text \<open>
  The storage of a log as texts: each slot and its value in hexadecimal.
\<close>

definition format_storage :: "Storage \<Rightarrow> (string \<rightharpoonup> string)" where
  "format_storage st =
     map_of (map (\<lambda>(i, storageValue). (hex_bytes (Bytes32 i), hex_bytes (Bytes32 storageValue))) st)"

definition format_log :: "Rendering \<Rightarrow> WasmLog \<Rightarrow> panic_value + WasmLogRes" where
  "format_log rn trace =
     on_ok (OpName rn trace) (\<lambda>opName.
       Inr \<lparr>res_Pc = Pc trace, res_OpFamily = OpCodeFamily_String (OpFamily trace),
            res_Params = OpParams trace, res_Op = opName, res_Gas = LogGas trace,
            res_GasCost = GasCost trace, res_Depth = Depth trace,
            res_Error = ErrorString rn trace,
            res_Stack = map_option (map Hex) (LogStack trace),
            res_MemoryChanges =
              map_option (\<lambda>mem. [MemoryOffset trace \<mapsto> hexutil_Encode mem]) (LogMemory trace),
            res_Storage = map_option format_storage (Storage trace),
            res_RefundCounter = RefundCounter trace, res_Drop = Drop trace\<rparr>)"

fun FormatWasmLogs :: "Rendering \<Rightarrow> WasmLog list \<Rightarrow> panic_value + WasmLogRes list" where
  "FormatWasmLogs rn [] = Inr []"
| "FormatWasmLogs rn (trace # rest) =
     on_ok (format_log rn trace) (\<lambda>r.
     on_ok (FormatWasmLogs rn rest) (\<lambda>rs. Inr (r # rs)))"

record WasmExecutionResult =
  result_Gas :: uint64
  InternalError :: string
  Failed :: bool
  GlobalMemory :: "uint32 \<rightharpoonup> string"
  ReturnValue :: string
  StructLogs :: "WasmLogRes list"
  Globals :: "WasmGlobal list"
  FunctionCalls :: "WasmFnCallLog list"

text \<open>
  \<open>GetResult\<close>, up to the value handed to \<open>json.Marshal\<close>: an aborted trace returns its
  reason as the error; otherwise the result is built.
\<close>

definition GetResult ::
  "Rendering \<Rightarrow> WebAssemblyLogger \<Rightarrow> panic_value + (error + WasmExecutionResult)" where
  "GetResult rn l =
     (case reason l of
        Some r \<Rightarrow> Inr (Inl r)
      | None \<Rightarrow>
          let failed = (err l \<noteq> None);
              returnData = output' l;
              returnVal = hex_bytes returnData;
              returnVal = (if failed \<and> err l \<noteq> Some ErrExecutionReverted then [] else returnVal);
              globalMemory' = (case globalMemory l of
                                 None \<Rightarrow> Map.empty
                               | Some gm \<Rightarrow> (\<lambda>k. map_option hex_bytes (gm k)))
          in on_ok (FormatWasmLogs rn (logs l)) (\<lambda>structLogs.
               Inr (Inr \<lparr>result_Gas = usedGas l, InternalError = [], Failed = failed,
                         GlobalMemory = globalMemory', ReturnValue = returnVal,
                         StructLogs = structLogs, Globals = globals l,
                         FunctionCalls = functionCalls l\<rparr>)))"

section \<open>The interpreter (wasm.go)\<close>

text \<open>The opcodes the interpreter registers host functions for (core/vm/opcodes.go).\<close>

definition STOP :: OpCode where "STOP = 0x00"
definition SHA3 :: OpCode where "SHA3 = 0x20"
definition ADDRESS :: OpCode where "ADDRESS = 0x30"
definition BALANCE :: OpCode where "BALANCE = 0x31"
definition ORIGIN :: OpCode where "ORIGIN = 0x32"
definition CALLER :: OpCode where "CALLER = 0x33"
definition CALLVALUE :: OpCode where "CALLVALUE = 0x34"
definition CALLDATALOAD :: OpCode where "CALLDATALOAD = 0x35"
definition CALLDATASIZE :: OpCode where "CALLDATASIZE = 0x36"
definition CALLDATACOPY :: OpCode where "CALLDATACOPY = 0x37"
definition CODESIZE :: OpCode where "CODESIZE = 0x38"
definition CODECOPY :: OpCode where "CODECOPY = 0x39"
definition GASPRICE :: OpCode where "GASPRICE = 0x3a"
definition EXTCODESIZE :: OpCode where "EXTCODESIZE = 0x3b"
definition EXTCODECOPY :: OpCode where "EXTCODECOPY = 0x3c"
definition RETURNDATASIZE :: OpCode where "RETURNDATASIZE = 0x3d"
definition RETURNDATACOPY :: OpCode where "RETURNDATACOPY = 0x3e"
definition EXTCODEHASH :: OpCode where "EXTCODEHASH = 0x3f"
definition BLOCKHASH :: OpCode where "BLOCKHASH = 0x40"
definition COINBASE :: OpCode where "COINBASE = 0x41"
definition TIMESTAMP :: OpCode where "TIMESTAMP = 0x42"
definition NUMBER :: OpCode where "NUMBER = 0x43"
definition DIFFICULTY :: OpCode where "DIFFICULTY = 0x44"
definition GASLIMIT :: OpCode where "GASLIMIT = 0x45"
definition CHAINID :: OpCode where "CHAINID = 0x46"
definition SELFBALANCE :: OpCode where "SELFBALANCE = 0x47"
definition BASEFEE :: OpCode where "BASEFEE = 0x48"
definition PC :: OpCode where "PC = 0x58"
definition MSIZE :: OpCode where "MSIZE = 0x59"
definition GAS :: OpCode where "GAS = 0x5a"
definition LOG0 :: OpCode where "LOG0 = 0xa0"
definition LOG1 :: OpCode where "LOG1 = 0xa1"
definition LOG2 :: OpCode where "LOG2 = 0xa2"
definition LOG3 :: OpCode where "LOG3 = 0xa3"
definition LOG4 :: OpCode where "LOG4 = 0xa4"
definition CREATE :: OpCode where "CREATE = 0xf0"
definition CALL :: OpCode where "CALL = 0xf1"
definition CALLCODE :: OpCode where "CALLCODE = 0xf2"
definition RETURN :: OpCode where "RETURN = 0xf3"
definition DELEGATECALL :: OpCode where "DELEGATECALL = 0xf4"
definition CREATE2 :: OpCode where "CREATE2 = 0xf5"
definition STATICCALL :: OpCode where "STATICCALL = 0xfa"
definition REVERT :: OpCode where "REVERT = 0xfd"
definition SELFDESTRUCT :: OpCode where "SELFDESTRUCT = 0xff"

text \<open>
  Modelled from the spec: the engine-side return codes, constants of the external
  package zkwasm-wasmi: "\<open>Ok=0\<close>, \<open>OutOfGas\<close>, \<open>ExecutionReverted\<close>, \<open>StopToken\<close>,
  \<open>Unknown\<close>". A number that is none of the five is \<open>ComputeTraceErrorCodeOther\<close>.
  The zero value of the \<open>int32\<close> the engine returns is \<open>Ok\<close>.
\<close>

datatype ComputeTraceErrorCode =
    ComputeTraceErrorCodeOk
  | ComputeTraceErrorCodeOutOfGas
  | ComputeTraceErrorCodeExecutionReverted
  | ComputeTraceErrorCodeStopToken
  | ComputeTraceErrorCodeUnknown
  | ComputeTraceErrorCodeOther

text \<open>
  \<open>config.Tracer\<close> is an interface value: \<open>nil\<close>, a logger that is not a \<open>WASMLogger\<close>
  (its state is not modelled), or the \<open>WebAssemblyLogger\<close>. The jump table of the
  configuration holds functions over the interpreter and is a parameter of the functions
  below; \<open>useLondon\<close> records that \<open>execEvmOp\<close> has replaced the configured table by
  \<open>newLondonInstructionSet()\<close>.
\<close>

datatype Tracer = NoTracer | OtherTracer | WasmTracer WebAssemblyLogger

record Config =
  Debug :: bool
  Tracer :: Tracer
  useLondon :: bool

record EVM =
  depth :: int

record 'e WASMInterpreter =
  evm :: EVM
  config :: Config
  stateQueue :: "ScopeContext list"
  readOnly :: bool
  returnData :: bytes
  wasmEngine :: 'e

text \<open>
  \<open>Scope\<close> returns the pointer held at index \<open>depth - 1\<close> of the queue after giving it an
  empty memory view whose interceptor is the interpreter. The model returns the scope and
  the interpreter with that queue entry updated.
\<close>

definition Scope :: "'e WASMInterpreter \<Rightarrow> panic_value + (ScopeContext \<times> 'e WASMInterpreter)" where
  "Scope s =
     (if depth (evm s) - 1 \<ge> int (length (stateQueue s))
      then Inl (PanicString ''context queue is empty'')
      else if depth (evm s) - 1 < 0
      then Inl (PanicError (RuntimeError ''index out of range''))
      else
        let i = nat (depth (evm s) - 1);
            scope = (stateQueue s ! i)\<lparr>Memory := Some (newMemoryFromSlice [] True)\<rparr>
        in Inr (scope, s\<lparr>stateQueue := (stateQueue s)[i := scope]\<rparr>))"

definition ScopeWithStack ::
  "Stack option \<Rightarrow> 'e WASMInterpreter \<Rightarrow> panic_value + (ScopeContext \<times> 'e WASMInterpreter)" where
  "ScopeWithStack stack s =
     on_ok (Scope s) (\<lambda>(scope, s').
       case stack of
         None \<Rightarrow> Inr (scope, s')
       | Some st \<Rightarrow> Inr (\<lparr>Memory = Memory scope, Stack = Some st, Contract = Contract scope\<rparr>, s'))"

text \<open>
  A scope built by \<open>ScopeWithStack\<close> or by the gas callback shares the contract (and the
  memory view) of the queue's scope by pointer; \<open>store_scope\<close> writes both back into the
  queue entry they came from.
\<close>

definition store_scope :: "nat \<Rightarrow> ScopeContext \<Rightarrow> 'e WASMInterpreter \<Rightarrow> 'e WASMInterpreter" where
  "store_scope i scope s =
     (if i < length (stateQueue s)
      then s\<lparr>stateQueue := (stateQueue s)
             [i := (stateQueue s ! i)\<lparr>Memory := Memory scope, Contract := Contract scope\<rparr>]\<rparr>
      else s)"

definition set_tracer :: "Tracer \<Rightarrow> 'e WASMInterpreter \<Rightarrow> 'e WASMInterpreter" where
  "set_tracer t s = s\<lparr>config := (config s)\<lparr>Tracer := t\<rparr>\<rparr>"

text \<open>The type assertion \<open>in.config.Tracer.(WASMLogger)\<close> in its panicking form.\<close>

definition as_WASMLogger :: "Tracer \<Rightarrow> panic_value + WebAssemblyLogger" where
  "as_WASMLogger t =
     (case t of
        WasmTracer l \<Rightarrow> Inr l
      | _ \<Rightarrow> Inl (PanicError (RuntimeError ''interface conversion'')))"

subsection \<open>The gas host function\<close>

text \<open>
  The callback \<open>registerGasCheckFunction\<close> registers under \<open>env.gas\<close>. It returns the
  code handed to the engine or panics; the interpreter it leaves is returned in both
  cases.
\<close>

definition gasCheckFunction ::
  "int64 list \<Rightarrow> 'e WASMInterpreter
     \<Rightarrow> (panic_value + ComputeTraceErrorCode) \<times> 'e WASMInterpreter" where
  "gasCheckFunction params s =
     (if length params \<noteq> 1 then (Inl (PanicError ErrOutOfGas), s)
      else
        case Scope s of
          Inl p \<Rightarrow> (Inl p, s)
        | Inr (scope, s1) \<Rightarrow>
            let i = nat (depth (evm s1) - 1);
                input = map (\<lambda>paramValue. (ucast paramValue :: uint64)) params;
                val = (ucast (input ! 0) :: int64);
                gasSpend = (ucast val :: uint64);
                charge = (\<lambda>s2.
                  case UseGas gasSpend (Contract scope) of
                    (False, c) \<Rightarrow> (Inl (PanicError ErrOutOfGas), s2)
                  | (True, c) \<Rightarrow>
                      (Inr ComputeTraceErrorCodeOk, store_scope i (scope\<lparr>Contract := c\<rparr>) s2))
            in
            if Debug (config s1) then
              let scope' = \<lparr>Memory = None, Stack = None, Contract = Contract scope\<rparr> in
              case as_WASMLogger (Tracer (config s1)) of
                Inl p \<Rightarrow> (Inl p, s1)
              | Inr wasmLogger \<Rightarrow>
                  if Gas (Contract scope') < gasSpend then
                    (case CaptureGasState gasSpend scope' (depth (evm s1)) (Some ErrOutOfGas) wasmLogger of
                       Inl p \<Rightarrow> (Inl p, s1)
                     | Inr l' \<Rightarrow>
                         (Inr ComputeTraceErrorCodeOutOfGas, set_tracer (WasmTracer l') s1))
                  else
                    (case CaptureGasState gasSpend scope' (depth (evm s1)) None wasmLogger of
                       Inl p \<Rightarrow> (Inl p, s1)
                     | Inr l' \<Rightarrow> charge (set_tracer (WasmTracer l') s1))
            else charge s1)"

subsection \<open>Opcode host functions\<close>

text \<open>
  \<open>uint256.Int.SetBytes\<close>: the big-endian value of a byte slice (of its last 32 bytes when
  it is longer).
\<close>

definition SetBytes :: "bytes \<Rightarrow> uint256" where
  "SetBytes buf = foldl (\<lambda>a b. a * 256 + ucast b) 0 buf"

datatype FieldType = UnknownFieldType | AddressFieldType | Uint256FieldType

text \<open>
  \<open>replaceMemOffsetWithValueOnStack\<close>: the stack item \<open>Back(inputOffsetIndex)\<close>, that is
  \<open>data[len - inputOffsetIndex - 1]\<close>, is overwritten by the address or the 256-bit value
  read from guest memory at the offset the argument holds.
\<close>

definition replaceMemOffsetWithValueOnStack ::
  "'e EngineApi \<Rightarrow> int \<Rightarrow> FieldType \<Rightarrow> 'e opCodeResultFn" where
  "replaceMemOffsetWithValueOnStack api inputOffsetIndex fieldType input scope eng =
     (let expectedMinLength = inputOffsetIndex + 1 in
      if int (length input) < expectedMinLength
      then Inr (Some (Errorf ''input length is too small to contain the expected value''), scope, eng)
      else
        on_ok (deref (Stack scope)) (\<lambda>stack.
        if int (length stack) < expectedMinLength
        then Inr (Some (Errorf ''stack length is too small to contain the expected value''), scope, eng)
        else if inputOffsetIndex < 0
        then Inr (Some (Errorf ''input offset index can't be less 0''), scope, eng)
        else
          let offset = input ! nat inputOffsetIndex;
              back = length stack - nat inputOffsetIndex - 1;
              replace = (\<lambda>destLen.
                on_ok (deref (Memory scope)) (\<lambda>m.
                on_ok (GetCopy api offset (word_of_int destLen) m eng) (\<lambda>valueBytes.
                Inr (None, scope\<lparr>Stack := Some (stack[back := SetBytes valueBytes])\<rparr>, eng))))
          in case fieldType of
               AddressFieldType \<Rightarrow> replace AddressDestLen
             | Uint256FieldType \<Rightarrow> replace Uint256DestLen
             | UnknownFieldType \<Rightarrow>
                 Inr (Some (Errorf ''unsupported field type provided''), scope, eng)))"

text \<open>
  Modelled from the spec: \<open>toWordSize\<close> (core/vm/common.go) and \<open>math.SafeMul\<close>
  (common/math) are not among the sources; the spec's "dynamic memory size arithmetic
  overflows" is the overflow of the size rounded up to 32-byte words times 32.
\<close>

definition toWordSize :: "uint64 \<Rightarrow> uint64" where
  "toWordSize size' = (if size' > - 1 - 31 then (- 1) div 32 + 1 else (size' + 31) div 32)"

definition SafeMul :: "uint64 \<Rightarrow> uint64 \<Rightarrow> uint64 \<times> bool" where
  "SafeMul x y = (x * y, unat x * unat y \<ge> 2 ^ 64)"

text \<open>
  An \<open>operation\<close> of the jump table, an external collaborator. \<open>execute\<close> gets the
  program counter, the scope and the interpreter (the EVM interpreter made for the call
  carries the interpreter's \<open>readOnly\<close>); it may change the scope and the interpreter (a
  nested call runs \<open>Run\<close>), and returns the return data and an error, or panics.
  \<open>dynamicGas\<close> returns a cost and an error.
\<close>

record 'e operation =
  execute :: "uint64 \<Rightarrow> ScopeContext \<Rightarrow> 'e WASMInterpreter
                \<Rightarrow> (panic_value + (bytes \<times> error option)) \<times> ScopeContext \<times> 'e WASMInterpreter"
  constantGas :: uint64
  dynamicGas :: "(ScopeContext \<Rightarrow> 'e WASMInterpreter \<Rightarrow> uint64 \<Rightarrow> uint64 \<times> error option) option"
  memorySize :: "(Stack option \<Rightarrow> uint64 \<times> bool) option"

text \<open>
  What the engine's \<open>DumpTrace\<close> yields in debug mode: an error, bytes that are not the
  expected JSON, or the trace. The data of a global-memory entry is what
  \<open>hexutil.MustDecode\<close> makes of its text, \<open>Inl\<close> of the error it panics with otherwise.
\<close>

record traceStruct =
  trace_GlobalMemory :: "(uint32 \<times> (error + bytes)) list option"
  trace_GlobalVariables :: "(uint64 \<times> uint64) list"
  trace_FnMetas :: "WasmFnCallLog list"

datatype dump = DumpTraceError error | UnmarshalError error | Trace traceStruct

text \<open>
  Everything outside the interpreter that its functions call: the engine, the jump
  table of the configuration and \<open>newLondonInstructionSet()\<close>, the injector
  (\<open>injectGasComputationAndStackProtection\<close>, not among the sources), the engine's
  \<open>ComputeResult\<close>, which runs the module and calls back into the host functions, so
  that it takes and returns the interpreter, and \<open>DumpTrace\<close>.
\<close>

record 'e World =
  engine :: "'e EngineApi"
  names :: Rendering
  JumpTable :: "OpCode \<Rightarrow> 'e operation option"
  newLondonInstructionSet :: "OpCode \<Rightarrow> 'e operation option"
  injectGasComputationAndStackProtection :: "bytes \<Rightarrow> error + bytes"
  ComputeResult :: "'e WASMInterpreter
                      \<Rightarrow> (panic_value + (ComputeTraceErrorCode \<times> error option)) \<times> 'e WASMInterpreter"
  DumpTrace :: "'e \<Rightarrow> dump"

text \<open>
  \<open>execEvmOp\<close>, in three parts: the lookup of the operation, the body up to the return
  of \<open>execute\<close> (it yields the error to return, or a panic, and the cost shown to the
  tracer), and the deferred capture.
\<close>

definition memory_size_of ::
  "'e operation \<Rightarrow> ScopeContext \<Rightarrow> error + uint64" where
  "memory_size_of op scope =
     (case memorySize op of
        None \<Rightarrow> Inr 0
      | Some ms \<Rightarrow>
          let (memSize, overflow) = ms (Stack scope) in
          if overflow then Inl ErrGasUintOverflow
          else
            let (memorySize', overflow') = SafeMul (toWordSize memSize) 32 in
            if overflow' then Inl ErrGasUintOverflow else Inr memorySize')"

definition execEvmOp_execute ::
  "'e World \<Rightarrow> 'e operation \<Rightarrow> uint64 \<Rightarrow> ScopeContext \<Rightarrow> 'e WASMInterpreter
     \<Rightarrow> (panic_value + error option) \<times> uint64 \<times> ScopeContext \<times> 'e WASMInterpreter" where
  "execEvmOp_execute w op cost scope s =
     (let pc_u64 = (ucast (GetLastPc (engine w) (wasmEngine s)) :: uint64) in
      case execute op pc_u64 scope s of
        (Inl p, scope', s') \<Rightarrow> (Inl p, cost, scope', s')
      | (Inr (ret, err'), scope', s') \<Rightarrow> (Inr err', cost, scope', s'\<lparr>returnData := ret\<rparr>))"

definition execEvmOp_body ::
  "'e World \<Rightarrow> 'e operation \<Rightarrow> ScopeContext \<Rightarrow> 'e WASMInterpreter
     \<Rightarrow> (panic_value + error option) \<times> uint64 \<times> ScopeContext \<times> 'e WASMInterpreter" where
  "execEvmOp_body w op scope s =
     (let cost = constantGas op in
      case UseGas cost (Contract scope) of
        (False, c) \<Rightarrow> (Inr (Some ErrOutOfGas), cost, scope, s)
      | (True, c) \<Rightarrow>
          (let scope1 = scope\<lparr>Contract := c\<rparr> in
           case dynamicGas op of
             None \<Rightarrow> execEvmOp_execute w op cost scope1 s
           | Some dg \<Rightarrow>
               (case memory_size_of op scope1 of
                  Inl e \<Rightarrow> (Inr (Some e), cost, scope1, s)
                | Inr memorySize' \<Rightarrow>
                    (let (dynamicCost, err') = dg scope1 s memorySize';
                         cost' = cost + dynamicCost
                     in if err' \<noteq> None then (Inr (Some ErrOutOfGas), cost', scope1, s)
                        else
                          (case UseGas dynamicCost (Contract scope1) of
                             (False, c') \<Rightarrow> (Inr (Some ErrOutOfGas), cost', scope1, s)
                           | (True, c') \<Rightarrow>
                               execEvmOp_execute w op cost' (scope1\<lparr>Contract := c'\<rparr>) s)))))"

text \<open>
  The deferred function of \<open>execEvmOp\<close>: in debug mode the tracer's \<open>CaptureState\<close> is
  called with the gas before the charge, the cost and the error (a stop token is not an
  error). When the body panicked the named result is still \<open>nil\<close>.
\<close>

definition execEvmOp_deferred ::
  "OpCode \<Rightarrow> uint64 \<Rightarrow> uint64 \<Rightarrow> (panic_value + error option) \<Rightarrow> ScopeContext
     \<Rightarrow> 'e WASMInterpreter \<Rightarrow> (panic_value + error option) \<times> ScopeContext \<times> 'e WASMInterpreter" where
  "execEvmOp_deferred opcode gasCopy cost r scope s =
     (let err' = (case r of Inl p \<Rightarrow> None | Inr e \<Rightarrow> e);
          err2 = (if err' = Some errStopToken then None else err')
      in if Debug (config s) then
           (case Tracer (config s) of
              NoTracer \<Rightarrow> (Inl nil_dereference, scope, s)
            | OtherTracer \<Rightarrow> (r, scope, s)
            | WasmTracer l \<Rightarrow>
                (case CaptureState (- 1) opcode gasCopy cost scope (returnData s)
                        (depth (evm s)) err2 l of
                   Inl p \<Rightarrow> (Inl p, scope, s)
                 | Inr l' \<Rightarrow> (r, scope, set_tracer (WasmTracer l') s)))
         else (r, scope, s))"

definition execEvmOp ::
  "'e World \<Rightarrow> OpCode \<Rightarrow> ScopeContext \<Rightarrow> 'e WASMInterpreter
     \<Rightarrow> (panic_value + error option) \<times> ScopeContext \<times> 'e WASMInterpreter" where
  "execEvmOp w opcode scope s =
     (let gasCopy = Gas (Contract scope);
          table = (if useLondon (config s) then newLondonInstructionSet w else JumpTable w);
          (op', s0) = (case table opcode of
                         Some op \<Rightarrow> (Some op, s)
                       | None \<Rightarrow> (newLondonInstructionSet w opcode,
                                  s\<lparr>config := (config s)\<lparr>useLondon := True\<rparr>\<rparr>))
      in case op' of
           None \<Rightarrow> (Inl nil_dereference, scope, s0)
         | Some op \<Rightarrow>
             (case execEvmOp_body w op scope s0 of
                (r, cost, scope1, s1) \<Rightarrow> execEvmOp_deferred opcode gasCopy cost r scope1 s1))"

text \<open>
  The pre-processors of a host call run in order until one returns an error. A
  pre-processor that panics does so before it changes anything, so the state a panic
  leaves is the state the pre-processor found.
\<close>

fun run_preprocessors ::
  "'e opCodeResultFn list \<Rightarrow> uint64 list \<Rightarrow> ScopeContext \<Rightarrow> 'e
     \<Rightarrow> (panic_value + error option) \<times> ScopeContext \<times> 'e" where
  "run_preprocessors [] input scope eng = (Inr None, scope, eng)"
| "run_preprocessors (f # fs) input scope eng =
     (case f input scope eng of
        Inl p \<Rightarrow> (Inl p, scope, eng)
      | Inr (Some e, scope', eng') \<Rightarrow> (Inr (Some e), scope', eng')
      | Inr (None, scope', eng') \<Rightarrow> run_preprocessors fs input scope' eng')"

definition processOpcode_body ::
  "'e World \<Rightarrow> uint64 list \<Rightarrow> OpCode \<Rightarrow> 'e opCodeResultFn list \<Rightarrow> ScopeContext
     \<Rightarrow> 'e WASMInterpreter \<Rightarrow> (panic_value + error option) \<times> ScopeContext \<times> 'e WASMInterpreter" where
  "processOpcode_body w input opcode inputPreprocessors scope s =
     (case run_preprocessors inputPreprocessors input scope (wasmEngine s) of
        (Inl p, scope', eng') \<Rightarrow> (Inl p, scope', s\<lparr>wasmEngine := eng'\<rparr>)
      | (Inr (Some e), scope', eng') \<Rightarrow> (Inr (Some e), scope', s\<lparr>wasmEngine := eng'\<rparr>)
      | (Inr None, scope', eng') \<Rightarrow> execEvmOp w opcode scope' (s\<lparr>wasmEngine := eng'\<rparr>))"

text \<open>
  The deferred function of \<open>processOpcode\<close> runs the finalizer on the scope as the body
  left it, also when the body returned an error or panicked; an error of the finalizer
  becomes a panic.
\<close>

definition processOpcode_deferred ::
  "'e opCodeResultFn option \<Rightarrow> uint64 list \<Rightarrow> (panic_value + error option) \<Rightarrow> ScopeContext
     \<Rightarrow> 'e WASMInterpreter \<Rightarrow> (panic_value + error option) \<times> ScopeContext \<times> 'e WASMInterpreter" where
  "processOpcode_deferred finalizer input r scope s =
     (case finalizer of
        None \<Rightarrow> (r, scope, s)
      | Some fin \<Rightarrow>
          (case fin input scope (wasmEngine s) of
             Inl p \<Rightarrow> (Inl p, scope, s)
           | Inr (Some err2, scope', eng') \<Rightarrow> (Inl (PanicError err2), scope', s\<lparr>wasmEngine := eng'\<rparr>)
           | Inr (None, scope', eng') \<Rightarrow> (r, scope', s\<lparr>wasmEngine := eng'\<rparr>)))"

definition fill_stack :: "uint64 list \<Rightarrow> Stack" where
  "fill_stack input =
     foldl (\<lambda>stack i. push (NewInt (input ! (length input - i - 1))) stack) [] [0..<length input]"

definition processOpcode ::
  "'e World \<Rightarrow> uint64 list \<Rightarrow> OpCode \<Rightarrow> 'e opCodeResultFn option \<Rightarrow> 'e opCodeResultFn list
     \<Rightarrow> 'e WASMInterpreter \<Rightarrow> (panic_value + error option) \<times> 'e WASMInterpreter" where
  "processOpcode w input opcode finalizer inputPreprocessors s =
     (let stack = fill_stack input in
      case ScopeWithStack (Some stack) s of
        Inl p \<Rightarrow> (Inl p, s)
      | Inr (scope, s1) \<Rightarrow>
          let i = nat (depth (evm s1) - 1) in
          case processOpcode_body w input opcode inputPreprocessors scope s1 of
            (r, scope2, s2) \<Rightarrow>
              (case processOpcode_deferred finalizer input r scope2 s2 of
                 (r', scope3, s3) \<Rightarrow> (r', store_scope i scope3 s3)))"

text \<open>The callback \<open>registerNativeFunction\<close> registers for an opcode.\<close>

definition nativeFunction ::
  "'e World \<Rightarrow> int \<Rightarrow> OpCode \<Rightarrow> 'e opCodeResultFn option \<Rightarrow> 'e opCodeResultFn list
     \<Rightarrow> int32 list \<Rightarrow> 'e WASMInterpreter
     \<Rightarrow> (panic_value + ComputeTraceErrorCode) \<times> 'e WASMInterpreter" where
  "nativeFunction w paramsCount opcode finalizer inputPreprocessors params s =
     (if int (length params) \<noteq> paramsCount then (Inr ComputeTraceErrorCodeUnknown, s)
      else
        let input = map (\<lambda>paramValue. (scast paramValue :: uint64)) params in
        case processOpcode w input opcode finalizer inputPreprocessors s of
          (Inl p, s') \<Rightarrow> (Inl p, s')
        | (Inr (Some e), s') \<Rightarrow>
            if e = errStopToken then (Inr ComputeTraceErrorCodeStopToken, s')
            else (Inl (PanicError e), s')
        | (Inr None, s') \<Rightarrow> (Inr ComputeTraceErrorCodeOk, s'))"

text \<open>The arities of the host functions (\<open>wasmFunctionTypes\<close>).\<close>

definition wasmFunctionTypes :: "(OpCode \<times> int) list" where
  "wasmFunctionTypes =
     [(STOP, 0), (SHA3, 3), (ADDRESS, 1), (BALANCE, 2), (ORIGIN, 1), (CALLER, 1),
      (CALLVALUE, 1), (CALLDATALOAD, 2), (CALLDATASIZE, 1), (CALLDATACOPY, 3),
      (CODESIZE, 1), (CODECOPY, 3), (GASPRICE, 1), (EXTCODESIZE, 2), (EXTCODECOPY, 4),
      (EXTCODEHASH, 2), (RETURNDATASIZE, 1), (RETURNDATACOPY, 3), (BLOCKHASH, 2),
      (COINBASE, 1), (TIMESTAMP, 1), (NUMBER, 1), (DIFFICULTY, 1), (GASLIMIT, 1),
      (CHAINID, 1), (SELFBALANCE, 1), (BASEFEE, 1), (SLOAD, 2), (SSTORE, 2), (PC, 1),
      (MSIZE, 1), (GAS, 1), (LOG0, 2), (LOG1, 3), (LOG2, 4), (LOG3, 5), (LOG4, 6),
      (CREATE, 4), (CALL, 8), (CALLCODE, 8), (RETURN, 2), (DELEGATECALL, 7), (CREATE2, 5),
      (STATICCALL, 7), (REVERT, 2), (SELFDESTRUCT, 1)]"

text \<open>
  The registrations of \<open>registerNativeFunctions\<close>: the import name, the opcode, the
  \<open>destLen\<close> of the finalizer \<open>copyLastStackItemToMemory(destLen)\<close> (\<open>None\<close> for a \<open>nil\<close>
  finalizer) and the arguments of the pre-processors
  \<open>replaceMemOffsetWithValueOnStack(index, fieldType)\<close>.
\<close>

type_synonym registration = "string \<times> OpCode \<times> int option \<times> (int \<times> FieldType) list"

definition registerNativeFunctions :: "registration list" where
  "registerNativeFunctions =
     [(''_evm_return'', RETURN, None, []),
      (''_evm_address'', ADDRESS, Some AddressDestLen, []),
      (''_evm_stop'', STOP, None, []),
      (''_evm_keccak256'', SHA3, Some HashDestLen, []),
      (''_evm_balance'', BALANCE, Some Uint256DestLen, [(0, AddressFieldType)]),
      (''_evm_origin'', ORIGIN, Some AddressDestLen, []),
      (''_evm_caller'', CALLER, Some AddressDestLen, []),
      (''_evm_callvalue'', CALLVALUE, Some Uint256DestLen, []),
      (''_evm_calldataload'', CALLDATALOAD, Some HashDestLen, [(0, Uint256FieldType)]),
      (''_evm_calldatasize'', CALLDATASIZE, Some SizeDestLen, []),
      (''_evm_calldatacopy'', CALLDATACOPY, None, []),
      (''_evm_codesize'', CODESIZE, Some SizeDestLen, []),
      (''_evm_codecopy'', CODECOPY, None, []),
      (''_evm_gasprice'', GASPRICE, Some Uint256DestLen, []),
      (''_evm_extcodesize'', EXTCODESIZE, Some SizeDestLen, [(0, AddressFieldType)]),
      (''_evm_extcodecopy'', EXTCODECOPY, None, [(0, AddressFieldType)]),
      (''_evm_extcodehash'', EXTCODEHASH, Some HashDestLen, [(0, AddressFieldType)]),
      (''_evm_returndatasize'', RETURNDATASIZE, Some SizeDestLen, []),
      (''_evm_returndatacopy'', RETURNDATACOPY, None, []),
      (''_evm_blockhash'', BLOCKHASH, Some HashDestLen, []),
      (''_evm_coinbase'', COINBASE, Some AddressDestLen, []),
      (''_evm_timestamp'', TIMESTAMP, Some Uint64DestLen, []),
      (''_evm_number'', NUMBER, Some Uint64DestLen, []),
      (''_evm_difficulty'', DIFFICULTY, Some Uint256DestLen, []),
      (''_evm_gaslimit'', GASLIMIT, Some Uint64DestLen, []),
      (''_evm_chainid'', CHAINID, Some Uint256DestLen, []),
      (''_evm_selfbalance'', SELFBALANCE, Some Uint256DestLen, []),
      (''_evm_basefee'', BASEFEE, Some Uint256DestLen, []),
      (''_evm_sload'', SLOAD, Some Uint256DestLen, [(0, Uint256FieldType)]),
      (''_evm_sstore'', SSTORE, None, [(0, Uint256FieldType), (1, Uint256FieldType)]),
      (''_evm_pc'', PC, Some Uint64DestLen, []),
      (''_evm_msize'', MSIZE, Some Uint64DestLen, []),
      (''_evm_gas'', GAS, Some Uint64DestLen, []),
      (''_evm_log0'', LOG0, None, []),
      (''_evm_log1'', LOG1, None, [(2, Uint256FieldType)]),
      (''_evm_log2'', LOG2, None, [(2, Uint256FieldType), (3, Uint256FieldType)]),
      (''_evm_log3'', LOG3, None,
         [(2, Uint256FieldType), (3, Uint256FieldType), (4, Uint256FieldType)]),
      (''_evm_log4'', LOG4, None,
         [(2, Uint256FieldType), (3, Uint256FieldType), (4, Uint256FieldType),
          (5, Uint256FieldType)]),
      (''_evm_create'', CREATE, Some AddressDestLen, [(0, Uint256FieldType)]),
      (''_evm_call'', CALL, Some BoolDestLen, [(1, AddressFieldType), (2, Uint256FieldType)]),
      (''_evm_callcode'', CALLCODE, Some BoolDestLen,
         [(1, AddressFieldType), (2, Uint256FieldType)]),
      (''_evm_delegatecall'', DELEGATECALL, Some BoolDestLen, [(1, Uint256FieldType)]),
      (''_evm_create2'', CREATE2, Some AddressDestLen, [(0, Uint256FieldType)]),
      (''_evm_staticcall'', STATICCALL, Some BoolDestLen, [(1, AddressFieldType)]),
      (''_evm_revert'', REVERT, None, []),
      (''_evm_selfdestruct'', SELFDESTRUCT, None, [])]"

text \<open>
  \<open>registerNativeFunction\<close>: the callback of a registration, or the panic of
  \<open>log.Panicf\<close> when the opcode has no arity.
\<close>

definition registerNativeFunction ::
  "'e World \<Rightarrow> registration
     \<Rightarrow> panic_value + (int32 list \<Rightarrow> 'e WASMInterpreter
                        \<Rightarrow> (panic_value + ComputeTraceErrorCode) \<times> 'e WASMInterpreter)" where
  "registerNativeFunction w reg =
     (case reg of (fnName, opcode, finalizer, inputPreprocessors) \<Rightarrow>
        (case map_of wasmFunctionTypes opcode of
           None \<Rightarrow> Inl (PanicString (''failed to register fn, function type not found'')) 
         | Some paramsCount \<Rightarrow>
             Inr (nativeFunction w paramsCount opcode
                    (map_option (copyLastStackItemToMemory (engine w)) finalizer)
                    (map (\<lambda>(i, ft). replaceMemOffsetWithValueOnStack (engine w) i ft)
                       inputPreprocessors))))"

subsection \<open>Run\<close>

text \<open>
  The replay of the engine's trace into the logger at the end of a debug run.
  \<open>CaptureGlobalVariable\<close> is called with a \<open>nil\<close> opcode.
\<close>

fun decode_global_memory ::
  "(uint32 \<times> (error + bytes)) list \<Rightarrow> panic_value + (uint32 \<times> bytes) list" where
  "decode_global_memory [] = Inr []"
| "decode_global_memory ((off, d) # rest) =
     (case d of
        Inl e \<Rightarrow> Inl (PanicError e)
      | Inr b \<Rightarrow> on_ok (decode_global_memory rest) (\<lambda>ds. Inr ((off, b) # ds)))"

fun replay_globals ::
  "Rendering \<Rightarrow> (uint64 \<times> uint64) list \<Rightarrow> WebAssemblyLogger \<Rightarrow> panic_value + WebAssemblyLogger" where
  "replay_globals rn [] l = Inr l"
| "replay_globals rn ((index, val) # rest) l =
     on_ok (CaptureGlobalVariable rn index None val l) (replay_globals rn rest)"

definition replay_trace :: "Rendering \<Rightarrow> dump \<Rightarrow> WebAssemblyLogger \<Rightarrow> panic_value + WebAssemblyLogger" where
  "replay_trace rn d l =
     (case d of
        DumpTraceError e \<Rightarrow> Inl (PanicError e)
      | UnmarshalError e \<Rightarrow> Inl (PanicError e)
      | Trace trace \<Rightarrow>
          on_ok (case trace_GlobalMemory trace of
                   None \<Rightarrow> Inr l
                 | Some gms \<Rightarrow>
                     on_ok (decode_global_memory gms) (\<lambda>globalMemory'.
                       Inr (CaptureGlobalMemoryState globalMemory' l))) (\<lambda>l1.
          on_ok (replay_globals rn (trace_GlobalVariables trace) l1) (\<lambda>l2.
          Inr (foldl (\<lambda>lg fm. CaptureWasmFunctionCall (FnIndex fm) (MaxStackHeight fm)
                                 (NumLocals fm) (FnName fm) lg) l2 (trace_FnMetas trace)))))"

text \<open>
  The deferred functions of \<open>Run\<close>, in the order they are registered: the depth is
  decremented; \<open>readOnly\<close> is reset when this call set it; the scope queue is cut back to
  \<open>depth - 1\<close> entries (a slice expression, which panics out of range; the model does not
  track capacities, so cutting beyond the length counts as out of range).
\<close>

definition defer_depth :: "'e WASMInterpreter \<Rightarrow> 'e WASMInterpreter" where
  "defer_depth s = s\<lparr>evm := (evm s)\<lparr>depth := depth (evm s) - 1\<rparr>\<rparr>"

definition defer_readOnly :: "bool \<Rightarrow> 'e WASMInterpreter \<Rightarrow> 'e WASMInterpreter" where
  "defer_readOnly registered s = (if registered then s\<lparr>readOnly := False\<rparr> else s)"

definition defer_stateQueue ::
  "(panic_value + 'a) \<times> 'e WASMInterpreter \<Rightarrow> (panic_value + 'a) \<times> 'e WASMInterpreter" where
  "defer_stateQueue rs =
     (case rs of (r, s) \<Rightarrow>
        if 0 \<le> depth (evm s) - 1 \<and> depth (evm s) - 1 \<le> int (length (stateQueue s))
        then (r, s\<lparr>stateQueue := take (nat (depth (evm s) - 1)) (stateQueue s)\<rparr>)
        else (Inl (PanicError (RuntimeError ''slice bounds out of range'')), s))"

text \<open>
  The translation of the engine's return code (the \<open>if\<close> chain after \<open>ComputeResult\<close>) and
  the clearing of the stop token before the return.
\<close>

definition translate_code :: "ComputeTraceErrorCode \<Rightarrow> error option \<Rightarrow> error option" where
  "translate_code res err' =
     (if res = ComputeTraceErrorCodeOutOfGas then Some ErrOutOfGas
      else if res = ComputeTraceErrorCodeExecutionReverted \<or> res = ComputeTraceErrorCodeUnknown
      then Some ErrExecutionReverted
      else if res = ComputeTraceErrorCodeStopToken then Some errStopToken
      else err')"

definition clear_stop_token :: "error option \<Rightarrow> error option" where
  "clear_stop_token err' = (if err' = Some errStopToken then None else err')"

text \<open>
  The call of \<open>ComputeResult\<close> inside the function that recovers from a panic: a panic
  with an error becomes the returned error, with the zero code; a panic with any other
  value fails the type assertion \<open>err2.(error)\<close> and panics again.
\<close>

definition recovered_ComputeResult ::
  "'e World \<Rightarrow> 'e WASMInterpreter
     \<Rightarrow> (panic_value + (ComputeTraceErrorCode \<times> error option)) \<times> 'e WASMInterpreter" where
  "recovered_ComputeResult w s =
     (case ComputeResult w s of
        (Inr (res, err'), s') \<Rightarrow> (Inr (res, err'), s')
      | (Inl (PanicError e), s') \<Rightarrow> (Inr (ComputeTraceErrorCodeOk, Some e), s')
      | (Inl (PanicString msg), s') \<Rightarrow>
          (Inl (PanicError (RuntimeError ''interface conversion'')), s'))"

text \<open>
  \<open>Run\<close> up to the call of the engine. \<open>Returned\<close> and \<open>Panicked\<close> end the call before the
  engine is entered (the deferred functions registered so far still run); \<open>Entered\<close>
  carries the interpreter as the engine finds it and whether this call has registered the
  reset of \<open>readOnly\<close>.
\<close>

datatype 'e entry =
    Returned "bytes \<times> error option" "'e WASMInterpreter"
  | Panicked panic_value "'e WASMInterpreter"
  | Entered bool "'e WASMInterpreter"

definition Run_enter ::
  "'e World \<Rightarrow> Contract \<Rightarrow> bytes \<Rightarrow> bool \<Rightarrow> 'e WASMInterpreter \<Rightarrow> 'e entry" where
  "Run_enter w contract input readOnly' s =
     (let s1 = s\<lparr>evm := (evm s)\<lparr>depth := depth (evm s) + 1\<rparr>\<rparr>;
          registered = (readOnly' \<and> \<not> readOnly s1);
          s2 = (if registered then s1\<lparr>readOnly := True\<rparr> else s1);
          s3 = s2\<lparr>returnData := []\<rparr>
      in if length (Code contract) = 0
         then Returned ([], None) (defer_depth (defer_readOnly registered s3))
         else
           let s4 = s3\<lparr>readOnly := readOnly'\<rparr>;
               leave = (\<lambda>st. defer_depth (defer_readOnly registered st))
           in if Debug (config s4) \<and> Tracer (config s4) = NoTracer
              then Panicked (PanicString ''tracer must be configured in debug mode'') (leave s4)
              else
                (case Tracer (config s4) of
                   NoTracer \<Rightarrow>
                     Panicked (PanicString ''tracer must implement [WASMLogger] in this mode'') (leave s4)
                 | OtherTracer \<Rightarrow>
                     Panicked (PanicString ''tracer must implement [WASMLogger] in this mode'') (leave s4)
                 | WasmTracer wasmLogger \<Rightarrow>
                     (let contract1 = contract\<lparr>Input := input\<rparr> in
                      case (if length input = 0
                            then map_sum id (\<lambda>injectResult. contract1\<lparr>Code := injectResult\<rparr>)
                                   (injectGasComputationAndStackProtection w (Code contract1))
                            else Inr contract1) of
                        Inl e \<Rightarrow>
                          Returned ([], Some (Errorf ''failed to check contract deployment code''))
                            (leave s4)
                      | Inr contract2 \<Rightarrow>
                          (let scope = \<lparr>Memory = None, Stack = Some [], Contract = contract2\<rparr>;
                               s5 = s4\<lparr>wasmEngine := SetWasmBinary (engine w) (Code contract2)
                                                        (wasmEngine s4)\<rparr>
                           in if int (length (stateQueue s5)) \<noteq> depth (evm s5) - 1
                              then Panicked (PanicString
                                     ''state queue len and evm depth mismatch, this is not possible'')
                                     (leave s5)
                              else Entered registered
                                     (s5\<lparr>stateQueue := stateQueue s5 @ [scope]\<rparr>)))))"

text \<open>
  \<open>Run\<close> from the call of the engine on: the return code is translated, the trace is
  replayed in debug mode, the stop token is cleared, and the deferred functions run.
\<close>

definition Run_leave ::
  "'e World \<Rightarrow> bool \<Rightarrow> 'e WASMInterpreter
     \<Rightarrow> (panic_value + (bytes \<times> error option)) \<times> 'e WASMInterpreter" where
  "Run_leave w registered s =
     (let leave = (\<lambda>rs. case defer_stateQueue rs of
                           (r, st) \<Rightarrow> (r, defer_depth (defer_readOnly registered st)))
      in case recovered_ComputeResult w s of
           (Inl p, s1) \<Rightarrow> leave (Inl p, s1)
         | (Inr (res, err0), s1) \<Rightarrow>
             (let err1 = translate_code res err0 in
              case (if Debug (config s1)
                    then on_ok (as_WASMLogger (Tracer (config s1))) (\<lambda>wasmLogger.
                         on_ok (replay_trace (names w) (DumpTrace w (wasmEngine s1)) wasmLogger)
                           (\<lambda>l'. Inr (set_tracer (WasmTracer l') s1)))
                    else Inr s1) of
                Inl p \<Rightarrow> leave (Inl p, s1)
              | Inr s2 \<Rightarrow> leave (Inr (returnData s2, clear_stop_token err1), s2)))"

definition Run ::
  "'e World \<Rightarrow> Contract \<Rightarrow> bytes \<Rightarrow> bool \<Rightarrow> 'e WASMInterpreter
     \<Rightarrow> (panic_value + (bytes \<times> error option)) \<times> 'e WASMInterpreter" where
  "Run w contract input readOnly' s =
     (case Run_enter w contract input readOnly' s of
        Returned r s' \<Rightarrow> (Inr r, s')
      | Panicked p s' \<Rightarrow> (Inl p, s')
      | Entered registered s' \<Rightarrow> Run_leave w registered s')"

section \<open>Example values\<close>

text \<open>Concrete values on which the theorems below are exercised.\<close>

definition example_rendering :: Rendering where
  "example_rendering =
     \<lparr>WasmOpCodeToName = (\<lambda>b. if b = 0x10 then Some ''call'' else None),
      OpCode_String = (\<lambda>b. ''SLOAD''), Error_text = (\<lambda>e. ''error'')\<rparr>"

definition example_cfg :: logger_Config where
  "example_cfg =
     \<lparr>EnableMemory = False, DisableStack = False, DisableStorage = False,
      EnableReturnData = True, logger_Debug = True, Limit = 0\<rparr>"

definition example_env :: EVMEnv where
  "example_env = \<lparr>abort = False, GetRefund = 0, GetState = (\<lambda>a h. 0)\<rparr>"

definition example_call_log :: WasmLog where
  "example_call_log =
     \<lparr>Pc = 5, OpFamily = OpCodeFamilyWASM, Op = wasmOpcodeInfo 5 0x10 ''call'' [3],
      Params = [], LogGas = 100, GasCost = 0, LogMemory = None, MemoryOffset = 0,
      MemorySize = 0, LogStack = Some [7], ReturnData = None, Storage = None, Depth = 1,
      RefundCounter = 0, Err = None, Keep = 0, Drop = 0\<rparr>"

definition example_const_log :: WasmLog where
  "example_const_log = example_call_log\<lparr>Op := wasmOpcodeInfo 4 0x42 ''i64.const'' [20]\<rparr>"

definition example_logger :: "WasmLog list \<Rightarrow> WebAssemblyLogger" where
  "example_logger lgs =
     \<lparr>cfg = example_cfg, env = example_env, storage = Map.empty, logs = lgs,
      functionCalls = [], globals = [], output' = [1, 2, 255], globalMemory = None,
      err = None, gasLimit = 0, usedGas = 0, interrupt = 0, reason = None\<rparr>"

definition example_contract :: Contract where
  "example_contract = \<lparr>Code = [0, 97, 115, 109], Input = [], Gas = 100, self = 0\<rparr>"

definition example_scope :: ScopeContext where
  "example_scope =
     \<lparr>Memory = Some (newMemoryFromSlice [] True), Stack = Some [7],
      Contract = example_contract\<rparr>"

text \<open>What a rewritten record keeps of the record it replaces.\<close>

definition inherits :: "WasmLog \<Rightarrow> WasmLog \<Rightarrow> bool" where
  "inherits new old =
     (Pc new = Pc old \<and> LogMemory new = LogMemory old \<and> MemoryOffset new = MemoryOffset old
      \<and> MemorySize new = MemorySize old \<and> LogStack new = LogStack old)"

text \<open>A logger whose limit of one record is reached.\<close>

definition example_full_logger :: "WasmLog list \<Rightarrow> WebAssemblyLogger" where
  "example_full_logger lgs = (example_logger lgs)\<lparr>cfg := example_cfg\<lparr>Limit := 1\<rparr>\<rparr>"

text \<open>
  An engine whose state is the list of the memory changes it was handed, and a world
  around it: the jump table knows \<open>TIMESTAMP\<close>, priced at 2, whose execution replaces the
  top of the stack by the block time; the injector returns the code as it is; the engine
  runs nothing and returns \<open>Ok\<close>.
\<close>

type_synonym example_engine = "(uint32 \<times> uint32 \<times> bytes) list"

definition example_api :: "example_engine EngineApi" where
  "example_api =
     \<lparr>TraceMemoryChange = (\<lambda>off len val eng. eng @ [(off, len, val)]),
      MemoryData = (\<lambda>eng. []), GetLastPc = (\<lambda>eng. 0), SetWasmBinary = (\<lambda>b eng. eng)\<rparr>"

definition example_timestamp :: "uint256 \<Rightarrow> example_engine operation" where
  "example_timestamp time =
     \<lparr>execute = (\<lambda>pc scope s.
         (Inr ([], None),
          scope\<lparr>Stack := map_option (\<lambda>st. butlast st @ [time]) (Stack scope)\<rparr>, s)),
      constantGas = 2, dynamicGas = None, memorySize = None\<rparr>"

definition example_world :: "uint256 \<Rightarrow> example_engine World" where
  "example_world time =
     \<lparr>engine = example_api, names = example_rendering,
      JumpTable = (\<lambda>opc. if opc = TIMESTAMP then Some (example_timestamp time) else None),
      newLondonInstructionSet = (\<lambda>opc. None),
      injectGasComputationAndStackProtection = (\<lambda>code. Inr code),
      ComputeResult = (\<lambda>s. (Inr (ComputeTraceErrorCodeOk, None), s)),
      DumpTrace = (\<lambda>eng. Trace \<lparr>trace_GlobalMemory = None, trace_GlobalVariables = [],
                                 trace_FnMetas = []\<rparr>)\<rparr>"

definition example_config :: "bool \<Rightarrow> WasmLog list \<Rightarrow> Config" where
  "example_config dbg lgs =
     \<lparr>Debug = dbg, Tracer = WasmTracer (example_logger lgs), useLondon = False\<rparr>"

text \<open>An interpreter inside one running frame: depth 1, one scope in the queue.\<close>

definition example_interpreter :: "bool \<Rightarrow> WasmLog list \<Rightarrow> example_engine WASMInterpreter" where
  "example_interpreter dbg lgs =
     \<lparr>evm = \<lparr>depth = 1\<rparr>, config = example_config dbg lgs,
      stateQueue = [\<lparr>Memory = None, Stack = Some [], Contract = example_contract\<rparr>],
      readOnly = False, returnData = [], wasmEngine = []\<rparr>"

text \<open>An interpreter between calls: depth 0, no scope.\<close>

definition example_idle :: "bool \<Rightarrow> example_engine WASMInterpreter" where
  "example_idle ro =
     \<lparr>evm = \<lparr>depth = 0\<rparr>, config = example_config False [],
      stateQueue = [], readOnly = ro, returnData = [], wasmEngine = []\<rparr>"

text \<open>
  Two readings of the interpreter the properties below speak about: the remaining gas of
  the contract of the current frame, and the trace log of the configured logger.
\<close>

definition remaining_gas :: "'e WASMInterpreter \<Rightarrow> uint64" where
  "remaining_gas s = Gas (Contract (stateQueue s ! nat (depth (evm s) - 1)))"

definition trace_log :: "'e WASMInterpreter \<Rightarrow> WasmLog list" where
  "trace_log s = (case Tracer (config s) of WasmTracer l \<Rightarrow> logs l | _ \<Rightarrow> [])"

text \<open>
  Two more engines: one that returns a given code and error without running anything,
  and one whose run consists of one call of the gas host function with an amount of 200,
  a panic of the callback passing through it.
\<close>

definition example_returning ::
  "ComputeTraceErrorCode \<Rightarrow> error option \<Rightarrow> example_engine World" where
  "example_returning res err' = (example_world 2)\<lparr>ComputeResult := (\<lambda>s. (Inr (res, err'), s))\<rparr>"

definition example_charging :: "example_engine World" where
  "example_charging =
     (example_world 2)\<lparr>ComputeResult := (\<lambda>s.
        case gasCheckFunction [200] s of
          (Inl p, s') \<Rightarrow> (Inl p, s')
        | (Inr code, s') \<Rightarrow> (Inr (code, None), s'))\<rparr>"

section \<open>Verified properties\<close>

subsection \<open>Helper lemmas on the trace recorder\<close>

lemma FormatWasmLogs_ok:
  "\<forall>lg \<in> set ls. OpFamily lg \<noteq> OpCodeFamilyUnknown \<Longrightarrow> \<exists>rs. FormatWasmLogs rn ls = Inr rs"
proof (induction ls)
  case Nil
  then show ?case by simp
next
  case (Cons lg ls)
  then obtain rs where rs: "FormatWasmLogs rn ls = Inr rs" by auto
  from Cons.prems have "OpFamily lg \<noteq> OpCodeFamilyUnknown" by simp
  then have "\<exists>nm. OpName rn lg = Inr nm"
    by (cases "OpFamily lg") (auto simp: OpName_def split: option.splits)
  then obtain nm where "OpName rn lg = Inr nm" by blast
  then obtain r where "format_log rn lg = Inr r"
    by (simp add: format_log_def on_ok_def)
  with rs show ?case by (simp add: on_ok_def)
qed

lemma hex_example: "hex_bytes [1, 2, 255] = ''0102ff''"
  by (simp add: hex_bytes_def hex_byte_def hex_digit_def)

lemma CaptureGasState_replaces:
  assumes "interrupt l = 0" "logs l \<noteq> []" "is_wasm_call (last (logs l))"
  shows "\<exists>l'. CaptureGasState gasCost scope d e l = Inr l'
           \<and> butlast (logs l') = butlast (logs l) \<and> length (logs l') = length (logs l)
           \<and> OpFamily (last (logs l')) = OpCodeFamilyGAS \<and> GasCost (last (logs l')) = gasCost
           \<and> inherits (last (logs l')) (last (logs l))"
proof -
  from assms(2) obtain xs x where xs: "logs l = xs @ [x]"
    by (metis append_butlast_last_id)
  with assms show ?thesis
    by (simp add: CaptureGasState_def Let_def inherits_def)
qed

lemma CaptureGasState_panics:
  assumes "interrupt l = 0" "logs l = [] \<or> \<not> is_wasm_call (last (logs l))"
  shows "\<exists>p. CaptureGasState gasCost scope d e l = Inl p"
proof (cases "logs l = []")
  case True
  with assms show ?thesis by (simp add: CaptureGasState_def)
next
  case False
  with assms have "\<not> is_wasm_call (logs l ! (length (logs l) - 1))"
    by (simp add: last_conv_nth)
  with assms False show ?thesis by (simp add: CaptureGasState_def Let_def)
qed

lemma CaptureState_replaces:
  assumes "interrupt l = 0" "\<not> limit_reached l" "Stack scope = Some st"
    "EnableMemory (cfg l) \<longrightarrow> Memory scope \<noteq> None"
    "logs l \<noteq> []" "is_wasm_call (last (logs l))"
  shows "\<exists>l'. CaptureState pc op gas cost scope rData d e l = Inr l'
           \<and> butlast (logs l') = butlast (logs l) \<and> length (logs l') = length (logs l)
           \<and> OpFamily (last (logs l')) = OpCodeFamilyEVM \<and> GasCost (last (logs l')) = cost
           \<and> inherits (last (logs l')) (last (logs l))"
proof -
  from assms(5) obtain xs x where xs: "logs l = xs @ [x]"
    by (metis append_butlast_last_id)
  with assms show ?thesis
    by (auto simp: CaptureState_def Let_def inherits_def on_ok_def deref_def
             split: prod.splits option.splits)
qed

lemma CaptureState_panics:
  assumes "interrupt l = 0" "\<not> limit_reached l" "logs l = [] \<or> \<not> is_wasm_call (last (logs l))"
  shows "\<exists>p. CaptureState pc op gas cost scope rData d e l = Inl p"
proof (cases "logs l = []")
  case True
  with assms show ?thesis
    by (auto simp: CaptureState_def Let_def on_ok_def deref_def split: prod.splits option.splits)
next
  case False
  with assms have "\<not> is_wasm_call (logs l ! (length (logs l) - 1))"
    by (simp add: last_conv_nth)
  with assms False show ?thesis
    by (auto simp: CaptureState_def Let_def on_ok_def deref_def split: prod.splits option.splits)
qed

lemma Capture_gated:
  "(interrupt l \<noteq> 0 \<longrightarrow>
      (\<exists>l'. CaptureGasState gasCost scope d e l = Inr l' \<and> logs l' = logs l)
      \<and> (\<exists>l'. CaptureState pc op gas cost scope rData d e l = Inr l' \<and> logs l' = logs l))
   \<and> (interrupt l = 0 \<and> limit_reached l \<longrightarrow>
        CaptureState pc op gas cost scope rData d e l = Inr l)"
  by (auto simp: CaptureGasState_def CaptureState_def word_greater_zero_iff)

subsection \<open>C7: the return value of the formatted result\<close>

text \<open>
  C7. Whenever \<open>GetResult\<close> yields a formatted result, its \<open>returnValue\<close> is the
  hexadecimal text of the captured output if the run succeeded or failed with
  \<open>ErrExecutionReverted\<close>, and the empty string if it failed with any other error. A
  result is produced whenever the trace was not aborted and every log has a known
  family.
\<close>

theorem GetResult_returnValue:
  "(GetResult rn l = Inr (Inr r) \<longrightarrow>
      ReturnValue r = (if err l = None \<or> err l = Some ErrExecutionReverted
                       then hex_bytes (output' l) else []))
   \<and> (reason l = None \<and> (\<forall>lg \<in> set (logs l). OpFamily lg \<noteq> OpCodeFamilyUnknown) \<longrightarrow>
        (\<exists>r'. GetResult rn l = Inr (Inr r')))"
proof (intro conjI impI)
  assume "GetResult rn l = Inr (Inr r)"
  then show "ReturnValue r = (if err l = None \<or> err l = Some ErrExecutionReverted
                       then hex_bytes (output' l) else [])"
    by (auto simp: GetResult_def on_ok_def Let_def split: option.splits sum.splits)
next
  assume a: "reason l = None \<and> (\<forall>lg \<in> set (logs l). OpFamily lg \<noteq> OpCodeFamilyUnknown)"
  then obtain rs where "FormatWasmLogs rn (logs l) = Inr rs"
    using FormatWasmLogs_ok by blast
  with a show "\<exists>r'. GetResult rn l = Inr (Inr r')"
    by (simp add: GetResult_def on_ok_def Let_def)
qed

theorem GetResult_returnValue_witness:
  "(\<exists>r. GetResult example_rendering
           ((example_logger [example_call_log])\<lparr>err := Some ErrExecutionReverted\<rparr>) = Inr (Inr r)
        \<and> ReturnValue r = ''0102ff'')
   \<and> (\<exists>r. GetResult example_rendering
           ((example_logger [example_call_log])\<lparr>err := Some ErrOutOfGas\<rparr>) = Inr (Inr r)
        \<and> ReturnValue r = [])"
proof -
  let ?l1 = "(example_logger [example_call_log])\<lparr>err := Some ErrExecutionReverted\<rparr>"
  let ?l2 = "(example_logger [example_call_log])\<lparr>err := Some ErrOutOfGas\<rparr>"
  have h1: "reason ?l1 = None \<and> (\<forall>lg \<in> set (logs ?l1). OpFamily lg \<noteq> OpCodeFamilyUnknown)"
    by (simp add: example_logger_def example_call_log_def)
  have h2: "reason ?l2 = None \<and> (\<forall>lg \<in> set (logs ?l2). OpFamily lg \<noteq> OpCodeFamilyUnknown)"
    by (simp add: example_logger_def example_call_log_def)
  from h1 obtain r1 where r1: "GetResult example_rendering ?l1 = Inr (Inr r1)"
    using GetResult_returnValue [of example_rendering ?l1] by blast
  from h2 obtain r2 where r2: "GetResult example_rendering ?l2 = Inr (Inr r2)"
    using GetResult_returnValue [of example_rendering ?l2] by blast
  have "ReturnValue r1 = ''0102ff''"
    using GetResult_returnValue [of example_rendering ?l1 r1] r1 hex_example
    by (simp add: example_logger_def)
  moreover have "ReturnValue r2 = []"
    using GetResult_returnValue [of example_rendering ?l2 r2] r2
    by (simp add: example_logger_def)
  ultimately show ?thesis using r1 r2 by blast
qed

subsection \<open>C4: the captures rewrite the last record\<close>

lemma ex_facts:
  "interrupt (example_logger lgs) = 0" "logs (example_logger lgs) = lgs"
  "\<not> limit_reached (example_logger lgs)" "\<not> EnableMemory (cfg (example_logger lgs))"
  "Stack example_scope = Some [7]"
  "is_wasm_call example_call_log" "\<not> is_wasm_call example_const_log"
  by (simp_all add: example_logger_def limit_reached_def example_cfg_def example_scope_def
      is_wasm_call_def example_call_log_def example_const_log_def Op_call_def)

text \<open>
  C4, as the code has it. While tracing is not interrupted, \<open>CaptureGasState\<close> replaces
  the last record, when it is a Wasm \<open>call\<close> record, by a GAS record whose \<open>GasCost\<close> is
  the charged amount, and \<open>CaptureState\<close> (while the limit is not reached, given a scope
  with a stack and, if memory is traced, a memory) replaces it by an EVM record; the
  records before it and the length of the log stay, and the new record has the old one's
  pc, memory and stack fields. When the log is empty or its last record is not a Wasm
  \<open>call\<close>, both captures panic. When tracing is interrupted both return with the log
  unchanged, and so does \<open>CaptureState\<close> when the limit is reached: neither rewrites nor
  panics then.
\<close>

theorem capture_rewrites_last_call_record:
  "(interrupt l = 0 \<and> logs l \<noteq> [] \<and> is_wasm_call (last (logs l)) \<longrightarrow>
      (\<exists>l'. CaptureGasState gasCost scope d e l = Inr l'
         \<and> butlast (logs l') = butlast (logs l) \<and> length (logs l') = length (logs l)
         \<and> OpFamily (last (logs l')) = OpCodeFamilyGAS \<and> GasCost (last (logs l')) = gasCost
         \<and> inherits (last (logs l')) (last (logs l))))
   \<and> (interrupt l = 0 \<and> \<not> limit_reached l \<and> Stack scope = Some st
        \<and> (EnableMemory (cfg l) \<longrightarrow> Memory scope \<noteq> None)
        \<and> logs l \<noteq> [] \<and> is_wasm_call (last (logs l)) \<longrightarrow>
      (\<exists>l'. CaptureState pc op gas cost scope rData d e l = Inr l'
         \<and> butlast (logs l') = butlast (logs l) \<and> length (logs l') = length (logs l)
         \<and> OpFamily (last (logs l')) = OpCodeFamilyEVM \<and> GasCost (last (logs l')) = cost
         \<and> inherits (last (logs l')) (last (logs l))))
   \<and> (interrupt l = 0 \<and> (logs l = [] \<or> \<not> is_wasm_call (last (logs l))) \<longrightarrow>
        (\<exists>p. CaptureGasState gasCost scope d e l = Inl p))
   \<and> (interrupt l = 0 \<and> \<not> limit_reached l \<and> (logs l = [] \<or> \<not> is_wasm_call (last (logs l))) \<longrightarrow>
        (\<exists>p. CaptureState pc op gas cost scope rData d e l = Inl p))
   \<and> (interrupt l \<noteq> 0 \<longrightarrow>
        (\<exists>l'. CaptureGasState gasCost scope d e l = Inr l' \<and> logs l' = logs l)
        \<and> (\<exists>l'. CaptureState pc op gas cost scope rData d e l = Inr l' \<and> logs l' = logs l))
   \<and> (interrupt l = 0 \<and> limit_reached l \<longrightarrow>
        CaptureState pc op gas cost scope rData d e l = Inr l)"
  using CaptureGasState_replaces [of l gasCost scope d e]
    CaptureState_replaces [of l scope st pc op gas cost rData d e]
    CaptureGasState_panics [of l gasCost scope d e]
    CaptureState_panics [of l pc op gas cost scope rData d e]
    Capture_gated [of l gasCost scope d e pc op gas cost rData]
  by blast

theorem capture_rewrites_last_call_record_witness:
  "(\<exists>l'. CaptureGasState 20 example_scope 1 None (example_logger [example_call_log]) = Inr l'
        \<and> length (logs l') = 1 \<and> OpFamily (last (logs l')) = OpCodeFamilyGAS
        \<and> GasCost (last (logs l')) = 20 \<and> inherits (last (logs l')) example_call_log)
   \<and> (\<exists>l'. CaptureState 0 SLOAD 100 3 example_scope [] 1 None (example_logger [example_call_log]) = Inr l'
        \<and> length (logs l') = 1 \<and> OpFamily (last (logs l')) = OpCodeFamilyEVM
        \<and> GasCost (last (logs l')) = 3 \<and> inherits (last (logs l')) example_call_log)
   \<and> (\<exists>p. CaptureGasState 20 example_scope 1 None (example_logger [example_const_log]) = Inl p)
   \<and> (\<exists>p. CaptureState 0 SLOAD 100 3 example_scope [] 1 None (example_logger [example_const_log]) = Inl p)
   \<and> (\<exists>l'. CaptureGasState 20 example_scope 1 None ((example_logger [example_const_log])\<lparr>interrupt := 1\<rparr>) = Inr l'
        \<and> logs l' = [example_const_log])
   \<and> CaptureState 0 SLOAD 100 3 example_scope [] 1 None (example_full_logger [example_const_log])
        = Inr (example_full_logger [example_const_log])"
proof -
  have lim: "interrupt (example_full_logger [example_const_log]) = 0
      \<and> limit_reached (example_full_logger [example_const_log])"
    by (simp add: example_full_logger_def example_logger_def limit_reached_def example_cfg_def)
  have intr: "interrupt ((example_logger [example_const_log])\<lparr>interrupt := 1\<rparr>) \<noteq> 0"
    "logs ((example_logger [example_const_log])\<lparr>interrupt := 1\<rparr>) = [example_const_log]"
    by (simp_all add: example_logger_def)
  note ok = capture_rewrites_last_call_record
        [of "example_logger [example_call_log]" 20 example_scope 1 None "[7]" 0 SLOAD 100 3 "[]"]
  note bad = capture_rewrites_last_call_record
        [of "example_logger [example_const_log]" 20 example_scope 1 None "[7]" 0 SLOAD 100 3 "[]"]
  note stopped = capture_rewrites_last_call_record
        [of "(example_logger [example_const_log])\<lparr>interrupt := 1\<rparr>" 20 example_scope 1 None "[7]" 0 SLOAD 100 3 "[]"]
  note full = capture_rewrites_last_call_record
        [of "example_full_logger [example_const_log]" 20 example_scope 1 None "[7]" 0 SLOAD 100 3 "[]"]
  have c1: "\<exists>l'. CaptureGasState 20 example_scope 1 None (example_logger [example_call_log]) = Inr l'
        \<and> length (logs l') = 1 \<and> OpFamily (last (logs l')) = OpCodeFamilyGAS
        \<and> GasCost (last (logs l')) = 20 \<and> inherits (last (logs l')) example_call_log"
    using ok by (simp add: ex_facts) blast
  have c2: "\<exists>l'. CaptureState 0 SLOAD 100 3 example_scope [] 1 None (example_logger [example_call_log]) = Inr l'
        \<and> length (logs l') = 1 \<and> OpFamily (last (logs l')) = OpCodeFamilyEVM
        \<and> GasCost (last (logs l')) = 3 \<and> inherits (last (logs l')) example_call_log"
    using ok by (simp add: ex_facts) blast
  have c3: "\<exists>p. CaptureGasState 20 example_scope 1 None (example_logger [example_const_log]) = Inl p"
    using bad by (simp add: ex_facts)
  have c4: "\<exists>p. CaptureState 0 SLOAD 100 3 example_scope [] 1 None (example_logger [example_const_log]) = Inl p"
    using bad by (simp add: ex_facts)
  have c5: "\<exists>l'. CaptureGasState 20 example_scope 1 None ((example_logger [example_const_log])\<lparr>interrupt := 1\<rparr>) = Inr l'
        \<and> logs l' = [example_const_log]"
    using stopped intr by simp
  have c6: "CaptureState 0 SLOAD 100 3 example_scope [] 1 None (example_full_logger [example_const_log])
        = Inr (example_full_logger [example_const_log])"
    using full lim by simp
  from c1 c2 c3 c4 c5 c6 show ?thesis by blast
qed

text \<open>
  C4 as stated fails: with the limit reached and a last record that is not a Wasm \<open>call\<close>,
  \<open>CaptureState\<close> returns without a panic and without touching the log.
\<close>

theorem CaptureState_limit_no_panic_counterexample:
  "\<not> is_wasm_call (last (logs (example_full_logger [example_const_log])))
   \<and> CaptureState 0 SLOAD 100 3 example_scope [] 1 None (example_full_logger [example_const_log])
       = Inr (example_full_logger [example_const_log])"
  by (simp add: CaptureState_def example_full_logger_def example_logger_def limit_reached_def
      example_cfg_def is_wasm_call_def example_const_log_def example_call_log_def Op_call_def)

subsection \<open>C8: captures once the limit is reached\<close>

text \<open>
  C8. With a limit of one record reached, \<open>CaptureWasmState\<close> and \<open>CaptureState\<close> leave
  the logger as it is, but \<open>CaptureGasState\<close> has no such check: it panics when the last
  record is not a Wasm \<open>call\<close> and rewrites the record when it is.
\<close>

theorem CaptureGasState_ignores_limit:
  "limit_reached (example_full_logger [example_const_log])
   \<and> CaptureWasmState 6 (wasmOpcodeInfo 6 0x10 ''call'' [3]) None example_scope 1 0 0
        (example_full_logger [example_const_log]) = Inr (example_full_logger [example_const_log])
   \<and> CaptureState 0 SLOAD 100 3 example_scope [] 1 None (example_full_logger [example_const_log])
        = Inr (example_full_logger [example_const_log])
   \<and> CaptureGasState 20 example_scope 1 None (example_full_logger [example_const_log])
        = Inl (PanicString ''trace order is corrupted'')
   \<and> map_sum id (\<lambda>l. map OpFamily (logs l))
        (CaptureGasState 20 example_scope 1 None (example_full_logger [example_call_log]))
        = Inr [OpCodeFamilyGAS]"
  by (simp add: CaptureState_def CaptureWasmState_def CaptureGasState_def
      example_full_logger_def example_logger_def limit_reached_def
      example_cfg_def is_wasm_call_def example_const_log_def example_call_log_def Op_call_def)

subsection \<open>Helper lemmas on byte representations and the finalizer\<close>

lemma length_dropWhile_le_iff:
  "length (dropWhile P xs) \<le> n \<longleftrightarrow> (\<forall>i < length xs - n. P (xs ! i))"
proof (induction xs)
  case Nil then show ?case by simp
next
  case (Cons x xs)
  show ?case
  proof (cases "P x")
    case True
    have "(\<forall>i < Suc (length xs) - n. P ((x # xs) ! i)) \<longleftrightarrow> (\<forall>i < length xs - n. P (xs ! i))"
    proof
      assume h: "\<forall>i < Suc (length xs) - n. P ((x # xs) ! i)"
      show "\<forall>i < length xs - n. P (xs ! i)"
      proof (intro allI impI)
        fix i assume "i < length xs - n"
        then have "Suc i < Suc (length xs) - n" by arith
        with h have "P ((x # xs) ! Suc i)" by blast
        then show "P (xs ! i)" by simp
      qed
    next
      assume h: "\<forall>i < length xs - n. P (xs ! i)"
      show "\<forall>i < Suc (length xs) - n. P ((x # xs) ! i)"
      proof (intro allI impI)
        fix i assume a: "i < Suc (length xs) - n"
        show "P ((x # xs) ! i)"
        proof (cases i)
          case 0 then show ?thesis using True by simp
        next
          case (Suc j)
          with a have "j < length xs - n" by arith
          with h Suc show ?thesis by simp
        qed
      qed
    qed
    with True Cons show ?thesis by simp
  next
    case False
    have "(\<forall>i < Suc (length xs) - n. P ((x # xs) ! i)) \<longleftrightarrow> Suc (length xs) \<le> n"
    proof
      assume h: "\<forall>i < Suc (length xs) - n. P ((x # xs) ! i)"
      show "Suc (length xs) \<le> n"
      proof (rule ccontr)
        assume "\<not> Suc (length xs) \<le> n"
        then have "0 < Suc (length xs) - n" by arith
        with h have "P ((x # xs) ! 0)" by blast
        with False show False by simp
      qed
    qed simp
    with False show ?thesis by simp
  qed
qed

lemma length_Bytes32 [simp]: "length (Bytes32 z) = 32"
  by (simp add: Bytes32_def)

lemma nth_Bytes32: "i < 32 \<Longrightarrow> Bytes32 z ! i = ucast (drop_bit (8 * (31 - i)) z)"
  by (simp add: Bytes32_def)

lemma byte_zero_iff:
  "(ucast (drop_bit k (z::'a::len word)) = (0::byte)) \<longleftrightarrow> (\<forall>j<8. \<not> bit z (k + j))"
  by (auto simp: bit_eq_iff bit_ucast_iff bit_drop_bit_eq ac_simps)

lemma drop_bit_zero_iff:
  "(drop_bit m (z::'a::len word) = 0) \<longleftrightarrow> (\<forall>j. \<not> bit z (m + j))"
proof
  assume "drop_bit m z = 0"
  then have "\<forall>j. bit (drop_bit m z) j = bit (0::'a word) j" by simp
  then show "\<forall>j. \<not> bit z (m + j)" by (simp add: bit_drop_bit_eq)
next
  assume "\<forall>j. \<not> bit z (m + j)"
  then show "drop_bit m z = 0"
    by (intro bit_eqI) (simp add: bit_drop_bit_eq)
qed

lemma leading_bytes_zero_iff:
  assumes "n \<le> 32"
  shows "(\<forall>i < 32 - n. Bytes32 z ! i = 0) \<longleftrightarrow> drop_bit (8 * n) z = 0"
proof
  assume h: "\<forall>i < 32 - n. Bytes32 z ! i = 0"
  show "drop_bit (8 * n) z = 0"
    unfolding drop_bit_zero_iff
  proof (intro allI notI)
    fix j assume b: "bit z (8 * n + j)"
    then have lt: "8 * n + j < 256" using bit_imp_le_length [of z "8 * n + j"] by simp
    define q where "q = (8 * n + j) div 8"
    define r where "r = (8 * n + j) mod 8"
    have q: "n \<le> q" "q \<le> 31" "r < 8" "8 * n + j = 8 * q + r"
      using lt by (auto simp: q_def r_def)
    then have "31 - q < 32 - n" "31 - q < 32" using assms by arith+
    with h have "Bytes32 z ! (31 - q) = 0" by blast
    then have "ucast (drop_bit (8 * q) z) = (0::byte)"
      using q by (simp add: nth_Bytes32)
    then have "\<not> bit z (8 * q + r)" using q(3) by (simp add: byte_zero_iff)
    with b q(4) show False by simp
  qed
next
  assume h: "drop_bit (8 * n) z = 0"
  show "\<forall>i < 32 - n. Bytes32 z ! i = 0"
  proof (intro allI impI)
    fix i assume i: "i < 32 - n"
    then have "n \<le> 31 - i" by arith
    then obtain d where d: "8 * (31 - i) = 8 * n + d"
      by (metis le_iff_add mult_le_mono2)
    have "\<forall>j<8. \<not> bit z (8 * (31 - i) + j)"
      using h unfolding drop_bit_zero_iff d by (simp add: add.assoc)
    then have "ucast (drop_bit (8 * (31 - i)) z) = (0::byte)"
      by (simp add: byte_zero_iff)
    with i show "Bytes32 z ! i = 0" by (simp add: nth_Bytes32)
  qed
qed

lemma drop_bit_zero_less:
  assumes "m < LENGTH('a)" shows "(drop_bit m (z::'a::len word) = 0) \<longleftrightarrow> z < 2 ^ m"
proof -
  have "(drop_bit m z = 0) \<longleftrightarrow> take_bit m z = z"
    by (simp add: take_bit_eq_self_iff_drop_bit_eq_0)
  also have "\<dots> \<longleftrightarrow> z < 2 ^ m"
    using assms by (metis take_bit_eq_mask less_mask_eq and_mask_less')
  finally show ?thesis .
qed

lemma length_Bytes_le_iff:
  assumes "n < 32"
  shows "length (Bytes z) \<le> n \<longleftrightarrow> z < 2 ^ (8 * n)"
proof -
  have "length (Bytes z) \<le> n \<longleftrightarrow> (\<forall>i < 32 - n. Bytes32 z ! i = 0)"
    by (simp add: Bytes_def length_dropWhile_le_iff)
  also have "\<dots> \<longleftrightarrow> drop_bit (8 * n) z = 0"
    using assms by (simp add: leading_bytes_zero_iff)
  also have "\<dots> \<longleftrightarrow> z < 2 ^ (8 * n)"
    using assms by (intro drop_bit_zero_less) simp
  finally show ?thesis .
qed

lemma length_Bytes_le_32: "length (Bytes z) \<le> 32"
  by (simp add: Bytes_def) (metis length_Bytes32 length_dropWhile_le)


lemma copyLast_eq:
  assumes "input \<noteq> []" "Stack scope = Some (st @ [item])" "0 \<le> destLen"
  shows "copyLastStackItemToMemory api destLen input scope eng =
     (if destLen < int (length (Bytes item))
      then Inl (PanicError (RuntimeError ''slice bounds out of range''))
      else on_ok (deref (Memory scope)) (\<lambda>m.
           on_ok (Set_mem api (last input) (word_of_int destLen)
                    (replicate (nat destLen - length (Bytes item)) 0 @ Bytes item) m eng)
             (\<lambda>(m', eng'). Inr (None, scope\<lparr>Memory := Some m'\<rparr>, eng'))))"
proof (cases "destLen < int (length (Bytes item))")
  case True
  with assms show ?thesis
    by (simp add: copyLastStackItemToMemory_def on_ok_def deref_def peek_def make_bytes_def
        slice_from_def Let_def)
next
  case False
  let ?L = "length (Bytes item)"
  let ?k = "nat (destLen - int ?L)"
  have d: "?k = nat destLen - ?L" "?L \<le> nat destLen"
    using False assms(3) by (simp_all add: nat_diff_distrib')
  have a: "nat destLen - (nat destLen - ?L) = ?L"
    "min (nat destLen) (nat destLen - ?L) = nat destLen - ?L"
    using d(2) by simp_all
  have len: "(word_of_nat (nat destLen - ?L) + word_of_nat ?L :: uint64) = word_of_int destLen"
  proof -
    have "(word_of_nat (nat destLen - ?L) + word_of_nat ?L :: uint64)
          = word_of_nat (nat destLen - ?L + ?L)" by simp
    also have "\<dots> = word_of_int destLen" using d(2) assms(3) by simp
    finally show ?thesis .
  qed
  have li: "input ! (length input - 1) = last input"
    using assms(1) by (simp add: last_conv_nth)
  show ?thesis
    unfolding copyLastStackItemToMemory_def Let_def li
    using False assms
    by (cases "Memory scope")
       (simp_all add: on_ok_def deref_def peek_def make_bytes_def slice_from_def copy_def
          d(1) a len)
qed

lemma ucast_scast_param: "(ucast (scast (p::int32) :: uint64) :: uint32) = p"
  by (simp add: bit_eq_iff bit_ucast_iff bit_signed_iff) 


subsection \<open>C10: a stack item longer than the destination\<close>

text \<open>
  C10. For a host call with arguments and an item on top of the operand stack, and a
  destination length below 32: the item's byte representation is longer than \<open>destLen\<close>
  exactly when the item is at least \<open>256 ^ destLen\<close>; in that case the finalizer panics
  with a slice bound out of range (it does not return an error); and the finalizer
  returns normally only if the representation has at most \<open>destLen\<close> bytes.
\<close>

theorem copyLastStackItemToMemory_item_too_long:
  assumes "input \<noteq> []" and "Stack scope = Some (st @ [item])"
    and "0 \<le> destLen" and "destLen < 32"
  shows "(destLen < int (length (Bytes item)) \<longleftrightarrow> 2 ^ (8 * nat destLen) \<le> item)
       \<and> (destLen < int (length (Bytes item)) \<longrightarrow>
            copyLastStackItemToMemory api destLen input scope eng
              = Inl (PanicError (RuntimeError ''slice bounds out of range'')))
       \<and> (\<forall>r. copyLastStackItemToMemory api destLen input scope eng = Inr r \<longrightarrow>
            int (length (Bytes item)) \<le> destLen)"
proof -
  have n: "nat destLen < 32" using assms(3,4) by simp
  have "length (Bytes item) \<le> nat destLen \<longleftrightarrow> item < 2 ^ (8 * nat destLen)"
    using length_Bytes_le_iff [OF n] .
  moreover have "length (Bytes item) \<le> nat destLen \<longleftrightarrow> int (length (Bytes item)) \<le> destLen"
    using assms(3) by (rule le_nat_iff)
  ultimately have 1: "destLen < int (length (Bytes item)) \<longleftrightarrow> 2 ^ (8 * nat destLen) \<le> item"
    by (simp add: not_le [symmetric])
  have 2: "destLen < int (length (Bytes item)) \<longrightarrow>
            copyLastStackItemToMemory api destLen input scope eng
              = Inl (PanicError (RuntimeError ''slice bounds out of range''))"
    by (simp add: copyLast_eq [OF assms(1-3)])
  have 3: "\<forall>r. copyLastStackItemToMemory api destLen input scope eng = Inr r \<longrightarrow>
            int (length (Bytes item)) \<le> destLen"
    using 2 by auto
  from 1 2 3 show ?thesis by blast
qed

lemma timestamp_registered:
  "(''_evm_timestamp'', TIMESTAMP, Some Uint64DestLen, []) \<in> set registerNativeFunctions"
  by (simp add: registerNativeFunctions_def)

theorem copyLastStackItemToMemory_item_too_long_witness:
  "(''_evm_timestamp'', TIMESTAMP, Some Uint64DestLen, []) \<in> set registerNativeFunctions
   \<and> (2 ^ (8 * nat Uint64DestLen) \<le> (2 ^ 64 :: uint256))
   \<and> copyLastStackItemToMemory example_api Uint64DestLen [16]
         (example_scope\<lparr>Stack := Some [2 ^ 64]\<rparr>) []
       = Inl (PanicError (RuntimeError ''slice bounds out of range''))"
proof -
  have le: "(2 ^ (8 * nat Uint64DestLen) :: uint256) \<le> 2 ^ 64"
    by (simp add: Uint64DestLen_def)
  have st: "Stack (example_scope\<lparr>Stack := Some [2 ^ 64]\<rparr>) = Some ([] @ [2 ^ 64])"
    by simp
  have "[16::uint64] \<noteq> []" "(0::int) \<le> Uint64DestLen" "Uint64DestLen < 32"
    by (simp_all add: Uint64DestLen_def)
  from copyLastStackItemToMemory_item_too_long [OF this(1) st this(2,3), of example_api "[]"] le
  show ?thesis using timestamp_registered by blast
qed

subsection \<open>C3: the finalizer's write\<close>

text \<open>
  C3, as the code has it. The finalizer runs after the body of the host call, whatever
  the body's outcome \<open>r\<close>. Given a scope whose memory view has the interceptor, and an item
  on top of the operand stack whose byte representation has at most \<open>destLen\<close> bytes, it
  reads that item, pads its bytes on the left with zeroes to \<open>destLen\<close> bytes and hands the
  engine one memory change of \<open>destLen\<close> bytes at the offset that is the last argument of
  the host call; the outcome of the body and the scope stay. Every registered finalizer
  has one of the lengths Address 20, U256 32, Size and Uint32 4, Uint64 8, Hash 32,
  Bool 1.
\<close>

theorem finalizer_writes_padded_item:
  assumes "params \<noteq> []" and "input = map (\<lambda>paramValue. (scast paramValue :: uint64)) params"
    and "Stack scope = Some (st @ [item])"
    and "Memory scope = Some m" and "memoryInterceptor m"
    and "0 \<le> destLen" and "int (length (Bytes item)) \<le> destLen"
  shows "processOpcode_deferred (Some (copyLastStackItemToMemory api destLen)) input r scope s
           = (r, scope, s\<lparr>wasmEngine :=
                TraceMemoryChange api (last params) (word_of_int destLen)
                  (replicate (nat destLen - length (Bytes item)) 0 @ Bytes item) (wasmEngine s)\<rparr>)
       \<and> int (length (replicate (nat destLen - length (Bytes item)) (0::byte) @ Bytes item)) = destLen
       \<and> (\<forall>reg \<in> set registerNativeFunctions. \<forall>d. fst (snd (snd reg)) = Some d \<longrightarrow>
             d \<in> {AddressDestLen, Uint256DestLen, SizeDestLen, Uint32DestLen, Uint64DestLen,
                   HashDestLen, BoolDestLen})
       \<and> AddressDestLen = 20 \<and> Uint256DestLen = 32 \<and> SizeDestLen = 4 \<and> Uint32DestLen = 4
       \<and> Uint64DestLen = 8 \<and> HashDestLen = 32 \<and> BoolDestLen = 1"
proof -
  have ne: "input \<noteq> []" using assms(1,2) by simp
  have off: "(ucast (last input) :: uint32) = last params"
    using assms(1,2) by (simp add: last_map ucast_scast_param)
  have sz: "(ucast (word_of_int destLen :: uint64) :: uint32) = word_of_int destLen"
    by (simp add: bit_eq_iff bit_ucast_iff bit_word_of_int_iff)
  have mm: "scope\<lparr>Memory := Some m\<rparr> = scope" using assms(4) by simp
  have "copyLastStackItemToMemory api destLen input scope eng =
          Inr (None, scope, TraceMemoryChange api (last params) (word_of_int destLen)
                  (replicate (nat destLen - length (Bytes item)) 0 @ Bytes item) eng)" for eng
    using assms(4,5,7)
    by (simp add: copyLast_eq [OF ne assms(3,6)] on_ok_def deref_def Set_mem_def writeMemory_def
        off sz mm)
  then have 1: "processOpcode_deferred (Some (copyLastStackItemToMemory api destLen)) input r scope s
           = (r, scope, s\<lparr>wasmEngine :=
                TraceMemoryChange api (last params) (word_of_int destLen)
                  (replicate (nat destLen - length (Bytes item)) 0 @ Bytes item) (wasmEngine s)\<rparr>)"
    by (simp add: processOpcode_deferred_def)
  have 2: "int (length (replicate (nat destLen - length (Bytes item)) (0::byte) @ Bytes item)) = destLen"
    using assms(6,7) by simp
  have 3: "\<forall>reg \<in> set registerNativeFunctions. \<forall>d. fst (snd (snd reg)) = Some d \<longrightarrow>
             d \<in> {AddressDestLen, Uint256DestLen, SizeDestLen, Uint32DestLen, Uint64DestLen,
                   HashDestLen, BoolDestLen}"
    by (simp add: registerNativeFunctions_def)
  from 1 2 3 show ?thesis
    by (simp add: AddressDestLen_def Uint256DestLen_def SizeDestLen_def Uint32DestLen_def
        Uint64DestLen_def HashDestLen_def BoolDestLen_def)
qed


lemma Bytes_7: "Bytes 7 = [7]"
  by code_simp

lemma Bytes_2_64: "Bytes (2 ^ 64) = [1, 0, 0, 0, 0, 0, 0, 0, 0]"
  by code_simp

theorem finalizer_writes_padded_item_witness:
  "processOpcode_deferred (Some (copyLastStackItemToMemory example_api Uint64DestLen))
       [16] (Inr None) example_scope (example_interpreter False [])
     = (Inr None, example_scope,
        (example_interpreter False [])\<lparr>wasmEngine := [(16, 8, [0, 0, 0, 0, 0, 0, 0, 7])]\<rparr>)"
proof -
  have h: "[16 :: int32] \<noteq> []"
    "[16 :: uint64] = map (\<lambda>paramValue. (scast paramValue :: uint64)) [16 :: int32]"
    "Stack example_scope = Some ([] @ [7])"
    "Memory example_scope = Some (newMemoryFromSlice [] True)"
    "memoryInterceptor (newMemoryFromSlice [] True)"
    "0 \<le> Uint64DestLen" "int (length (Bytes 7)) \<le> Uint64DestLen"
    by (simp_all add: example_scope_def newMemoryFromSlice_def Uint64DestLen_def Bytes_7)
  have e: "wasmEngine (example_interpreter False []) = []"
    by (simp add: example_interpreter_def)
  show ?thesis
    using finalizer_writes_padded_item [OF h, of example_api "Inr None" "example_interpreter False []"]
    by (simp add: Bytes_7 e example_api_def Uint64DestLen_def numeral_eq_Suc)
qed

text \<open>
  C3 as stated fails when the item does not fit: the host function registered for
  \<open>_evm_timestamp\<close> (destination length 8), run in a world whose block time is \<open>2 ^ 64\<close>,
  panics in the finalizer and writes nothing.
\<close>

theorem timestamp_finalizer_panics_counterexample:
  "map_sum id (\<lambda>hostFn. fst (hostFn [16] (example_interpreter False [])))
     (registerNativeFunction (example_world (2 ^ 64))
        (''_evm_timestamp'', TIMESTAMP, Some Uint64DestLen, []))
   = Inr (Inl (PanicError (RuntimeError ''slice bounds out of range'')))"
  by code_simp

subsection \<open>Helper lemmas on the gas meter and on opcode execution\<close>

lemma Scope_ok:
  assumes "0 < depth (evm s)" "depth (evm s) \<le> int (length (stateQueue s))"
  shows "Scope s = Inr ((stateQueue s ! nat (depth (evm s) - 1))\<lparr>Memory := Some (newMemoryFromSlice [] True)\<rparr>,
                        s\<lparr>stateQueue := (stateQueue s)[nat (depth (evm s) - 1) :=
                              (stateQueue s ! nat (depth (evm s) - 1))\<lparr>Memory := Some (newMemoryFromSlice [] True)\<rparr>]\<rparr>)"
  using assms by (simp add: Scope_def Let_def)

lemma gas_not_debug:
  assumes "0 < depth (evm s)" "depth (evm s) \<le> int (length (stateQueue s))" "\<not> Debug (config s)"
  shows "\<exists>s'. gasCheckFunction [v] s =
            (if remaining_gas s < v then Inl (PanicError ErrOutOfGas) else Inr ComputeTraceErrorCodeOk, s')
          \<and> remaining_gas s' = (if remaining_gas s < v then remaining_gas s else remaining_gas s - v)
          \<and> trace_log s' = trace_log s"
proof -
  have i: "nat (depth (evm s) - 1) < length (stateQueue s)" using assms by linarith
  show ?thesis
    using assms(3) i
    by (simp add: gasCheckFunction_def Scope_ok [OF assms(1,2)] Let_def UseGas_def
        remaining_gas_def trace_log_def store_scope_def)
qed

lemma gas_debug:
  assumes "0 < depth (evm s)" "depth (evm s) \<le> int (length (stateQueue s))" "Debug (config s)"
    "Tracer (config s) = WasmTracer l" "interrupt l = 0" "logs l \<noteq> []" "is_wasm_call (last (logs l))"
  shows "\<exists>s'. gasCheckFunction [v] s =
            (if remaining_gas s < v then Inr ComputeTraceErrorCodeOutOfGas else Inr ComputeTraceErrorCodeOk, s')
          \<and> remaining_gas s' = (if remaining_gas s < v then remaining_gas s else remaining_gas s - v)
          \<and> butlast (trace_log s') = butlast (trace_log s)
          \<and> length (trace_log s') = length (trace_log s)
          \<and> OpFamily (last (trace_log s')) = OpCodeFamilyGAS
          \<and> GasCost (last (trace_log s')) = v
          \<and> LogGas (last (trace_log s')) = remaining_gas s
          \<and> Err (last (trace_log s')) = (if remaining_gas s < v then Some ErrOutOfGas else None)
          \<and> inherits (last (trace_log s')) (last (trace_log s))"
proof -
  have i: "nat (depth (evm s) - 1) < length (stateQueue s)" using assms by linarith
  from assms(6) obtain xs x where xs: "logs l = xs @ [x]"
    by (metis append_butlast_last_id)
  have cg: "CaptureGasState v sc d e l =
       Inr (l\<lparr>logs := xs @ [\<lparr>Pc = Pc x, OpFamily = OpCodeFamilyGAS, Op = GasOpCodeInfo 0,
                     Params = [], LogGas = Gas (Contract sc), GasCost = v,
                     LogMemory = LogMemory x, MemoryOffset = MemoryOffset x,
                     MemorySize = MemorySize x, LogStack = LogStack x,
                     ReturnData = Some [], Storage = None, Depth = d,
                     RefundCounter = RefundCounter x, Err = e, Keep = 0, Drop = 0\<rparr>]\<rparr>)" for sc d e
    using assms(5,7) xs by (simp add: CaptureGasState_def Let_def)
  show ?thesis
    using assms(3,4) i xs
    by (simp add: gasCheckFunction_def Scope_ok [OF assms(1,2)] Let_def UseGas_def
        remaining_gas_def trace_log_def store_scope_def as_WASMLogger_def cg set_tracer_def
        inherits_def)
qed




lemma UseGas_cases: "fst (UseGas g c) \<or> UseGas g c = (False, c)"
  by (simp add: UseGas_def)





subsection \<open>C6: what a successful host call does to the remaining gas\<close>



subsection \<open>C1: the gas host function\<close>

text \<open>
  C1, as the code has it. The amount charged is the argument read as an unsigned 64-bit
  number. Inside a running frame: in debug mode, with a logger that is not interrupted
  and whose last record is a Wasm \<open>call\<close>, a charge greater than the remaining gas
  rewrites that record to a GAS record with the out-of-gas error, returns \<open>OutOfGas\<close> and
  leaves the remaining gas as it was; otherwise the record is rewritten to a GAS record
  without error, the amount is subtracted and \<open>Ok\<close> is returned. Without debug mode no
  trace record is touched: a charge greater than the remaining gas panics with
  \<open>ErrOutOfGas\<close>, the gas as it was; otherwise the amount is subtracted and \<open>Ok\<close> is
  returned.
\<close>

theorem gas_host_function:
  "uint (ucast (v::int64) :: uint64) = sint v mod 2 ^ 64
   \<and> (0 < depth (evm s) \<and> depth (evm s) \<le> int (length (stateQueue s)) \<and> Debug (config s)
        \<and> Tracer (config s) = WasmTracer l \<and> interrupt l = 0 \<and> logs l \<noteq> []
        \<and> is_wasm_call (last (logs l)) \<longrightarrow>
        (\<exists>s'. gasCheckFunction [v] s =
            (if remaining_gas s < v then Inr ComputeTraceErrorCodeOutOfGas
             else Inr ComputeTraceErrorCodeOk, s')
          \<and> remaining_gas s' = (if remaining_gas s < v then remaining_gas s else remaining_gas s - v)
          \<and> butlast (trace_log s') = butlast (trace_log s)
          \<and> length (trace_log s') = length (trace_log s)
          \<and> OpFamily (last (trace_log s')) = OpCodeFamilyGAS
          \<and> GasCost (last (trace_log s')) = v
          \<and> LogGas (last (trace_log s')) = remaining_gas s
          \<and> Err (last (trace_log s')) = (if remaining_gas s < v then Some ErrOutOfGas else None)
          \<and> inherits (last (trace_log s')) (last (trace_log s))))
   \<and> (0 < depth (evm s) \<and> depth (evm s) \<le> int (length (stateQueue s)) \<and> \<not> Debug (config s) \<longrightarrow>
        (\<exists>s'. gasCheckFunction [v] s =
            (if remaining_gas s < v then Inl (PanicError ErrOutOfGas)
             else Inr ComputeTraceErrorCodeOk, s')
          \<and> remaining_gas s' = (if remaining_gas s < v then remaining_gas s else remaining_gas s - v)
          \<and> trace_log s' = trace_log s))"
proof (intro conjI impI)
  show "uint (ucast v :: uint64) = sint v mod 2 ^ 64"
    by (simp add: uint_sint take_bit_eq_mod)
next
  assume a: "0 < depth (evm s) \<and> depth (evm s) \<le> int (length (stateQueue s)) \<and> Debug (config s)
        \<and> Tracer (config s) = WasmTracer l \<and> interrupt l = 0 \<and> logs l \<noteq> []
        \<and> is_wasm_call (last (logs l))"
  then show "\<exists>s'. gasCheckFunction [v] s =
            (if remaining_gas s < v then Inr ComputeTraceErrorCodeOutOfGas
             else Inr ComputeTraceErrorCodeOk, s')
          \<and> remaining_gas s' = (if remaining_gas s < v then remaining_gas s else remaining_gas s - v)
          \<and> butlast (trace_log s') = butlast (trace_log s)
          \<and> length (trace_log s') = length (trace_log s)
          \<and> OpFamily (last (trace_log s')) = OpCodeFamilyGAS
          \<and> GasCost (last (trace_log s')) = v
          \<and> LogGas (last (trace_log s')) = remaining_gas s
          \<and> Err (last (trace_log s')) = (if remaining_gas s < v then Some ErrOutOfGas else None)
          \<and> inherits (last (trace_log s')) (last (trace_log s))"
    using gas_debug [of s l v] by blast
next
  assume "0 < depth (evm s) \<and> depth (evm s) \<le> int (length (stateQueue s)) \<and> \<not> Debug (config s)"
  then show "\<exists>s'. gasCheckFunction [v] s =
            (if remaining_gas s < v then Inl (PanicError ErrOutOfGas)
             else Inr ComputeTraceErrorCodeOk, s')
          \<and> remaining_gas s' = (if remaining_gas s < v then remaining_gas s else remaining_gas s - v)
          \<and> trace_log s' = trace_log s"
    using gas_not_debug [of s v] by blast
qed

lemma example_interpreter_facts:
  "0 < depth (evm (example_interpreter dbg lgs))"
  "depth (evm (example_interpreter dbg lgs)) \<le> int (length (stateQueue (example_interpreter dbg lgs)))"
  "Debug (config (example_interpreter dbg lgs)) = dbg"
  "Tracer (config (example_interpreter dbg lgs)) = WasmTracer (example_logger lgs)"
  "remaining_gas (example_interpreter dbg lgs) = 100"
  "trace_log (example_interpreter dbg lgs) = lgs"
  by (simp_all add: example_interpreter_def example_config_def remaining_gas_def trace_log_def
      example_contract_def example_logger_def)

theorem gas_host_function_witness:
  "(\<exists>s'. gasCheckFunction [20] (example_interpreter True [example_call_log])
            = (Inr ComputeTraceErrorCodeOk, s')
        \<and> remaining_gas s' = 80 \<and> length (trace_log s') = 1
        \<and> OpFamily (last (trace_log s')) = OpCodeFamilyGAS \<and> GasCost (last (trace_log s')) = 20
        \<and> Err (last (trace_log s')) = None)
   \<and> (\<exists>s'. gasCheckFunction [200] (example_interpreter True [example_call_log])
            = (Inr ComputeTraceErrorCodeOutOfGas, s')
        \<and> remaining_gas s' = 100 \<and> length (trace_log s') = 1
        \<and> OpFamily (last (trace_log s')) = OpCodeFamilyGAS \<and> GasCost (last (trace_log s')) = 200
        \<and> Err (last (trace_log s')) = Some ErrOutOfGas)
   \<and> (\<exists>s'. gasCheckFunction [20] (example_interpreter False [example_call_log])
            = (Inr ComputeTraceErrorCodeOk, s')
        \<and> remaining_gas s' = 80 \<and> trace_log s' = [example_call_log])"
proof -
  note f = example_interpreter_facts ex_facts
  have c1: "\<exists>s'. gasCheckFunction [20] (example_interpreter True [example_call_log])
            = (Inr ComputeTraceErrorCodeOk, s')
        \<and> remaining_gas s' = 80 \<and> length (trace_log s') = 1
        \<and> OpFamily (last (trace_log s')) = OpCodeFamilyGAS \<and> GasCost (last (trace_log s')) = 20
        \<and> Err (last (trace_log s')) = None"
    using gas_host_function [of 20 "example_interpreter True [example_call_log]"
        "example_logger [example_call_log]"]
    by (simp add: f) blast
  have c2: "\<exists>s'. gasCheckFunction [200] (example_interpreter True [example_call_log])
            = (Inr ComputeTraceErrorCodeOutOfGas, s')
        \<and> remaining_gas s' = 100 \<and> length (trace_log s') = 1
        \<and> OpFamily (last (trace_log s')) = OpCodeFamilyGAS \<and> GasCost (last (trace_log s')) = 200
        \<and> Err (last (trace_log s')) = Some ErrOutOfGas"
    using gas_host_function [of 200 "example_interpreter True [example_call_log]"
        "example_logger [example_call_log]"]
    by (simp add: f) blast
  have c3: "\<exists>s'. gasCheckFunction [20] (example_interpreter False [example_call_log])
            = (Inr ComputeTraceErrorCodeOk, s')
        \<and> remaining_gas s' = 80 \<and> trace_log s' = [example_call_log]"
    using gas_host_function [of 20 "example_interpreter False [example_call_log]"
        "example_logger [example_call_log]"]
    by (simp add: f)
  from c1 c2 c3 show ?thesis by blast
qed

text \<open>
  C1 as stated fails without debug mode: a charge of 200 on 100 remaining gas panics
  instead of returning \<open>OutOfGas\<close>, and neither it nor a charge of 20 records a GAS entry.
\<close>

theorem gas_without_debug_counterexample:
  "fst (gasCheckFunction [200] (example_interpreter False [example_call_log]))
     = Inl (PanicError ErrOutOfGas)
   \<and> trace_log (snd (gasCheckFunction [200] (example_interpreter False [example_call_log])))
     = [example_call_log]
   \<and> fst (gasCheckFunction [20] (example_interpreter False [example_call_log]))
     = Inr ComputeTraceErrorCodeOk
   \<and> trace_log (snd (gasCheckFunction [20] (example_interpreter False [example_call_log])))
     = [example_call_log]"
  by code_simp



lemma example_timestamp_gas:
  "Gas (Contract (fst (snd (execEvmOp (example_world 2) TIMESTAMP example_scope
      (example_interpreter False []))))) = 98"
  by code_simp


subsection \<open>Helper lemmas on Run\<close>

lemma Run_leave_error:
  assumes "recovered_ComputeResult w s1 = (Inr (res, eerr), s2)"
    and "Run_leave w reg s1 = (Inr (ret, e), s')"
  shows "e = clear_stop_token (translate_code res eerr)"
  using assms
  by (auto simp: Run_leave_def defer_stateQueue_def Let_def on_ok_def
      split: if_splits sum.splits prod.splits)

lemma translate_cases:
  "clear_stop_token (translate_code res eerr) =
     (case res of
        ComputeTraceErrorCodeOutOfGas \<Rightarrow> Some ErrOutOfGas
      | ComputeTraceErrorCodeExecutionReverted \<Rightarrow> Some ErrExecutionReverted
      | ComputeTraceErrorCodeUnknown \<Rightarrow> Some ErrExecutionReverted
      | ComputeTraceErrorCodeStopToken \<Rightarrow> None
      | _ \<Rightarrow> (if eerr = Some errStopToken then None else eerr))"
  by (cases res) (simp_all add: translate_code_def clear_stop_token_def)


lemma Run_Entered: "Run_enter w contract input ro s = Entered reg s1 \<Longrightarrow>
    Run w contract input ro s = Run_leave w reg s1"
  by (simp add: Run_def)

subsection \<open>C2: the translation of the engine's return code\<close>

text \<open>
  C2, as the code has it. When \<open>Run\<close> has entered the engine and returns, its error is
  \<open>ErrOutOfGas\<close> for the code \<open>OutOfGas\<close>, \<open>ErrExecutionReverted\<close> for the codes
  \<open>ExecutionReverted\<close> and \<open>Unknown\<close>, \<open>nil\<close> for \<open>StopToken\<close>, and for \<open>Ok\<close> (and any other
  code) the error the call of the engine itself produced, a stop token cleared: \<open>nil\<close>
  when the engine returned no error, and the error of a recovered panic otherwise.
\<close>

theorem Run_translates_return_code:
  assumes "Run_enter w contract input ro s = Entered reg s1"
    and "recovered_ComputeResult w s1 = (Inr (res, eerr), s2)"
    and "Run w contract input ro s = (Inr (ret, e), s')"
  shows "e = (case res of
                ComputeTraceErrorCodeOutOfGas \<Rightarrow> Some ErrOutOfGas
              | ComputeTraceErrorCodeExecutionReverted \<Rightarrow> Some ErrExecutionReverted
              | ComputeTraceErrorCodeUnknown \<Rightarrow> Some ErrExecutionReverted
              | ComputeTraceErrorCodeStopToken \<Rightarrow> None
              | _ \<Rightarrow> (if eerr = Some errStopToken then None else eerr))"
proof -
  from assms(1,3) have "Run_leave w reg s1 = (Inr (ret, e), s')"
    by (simp add: Run_Entered)
  from Run_leave_error [OF assms(2) this] show ?thesis
    by (simp add: translate_cases)
qed

lemma example_enter:
  "\<exists>s1. Run_enter (example_returning res err') example_contract [1] False (example_idle False)
        = Entered False s1"
  by (simp add: Run_enter_def example_returning_def example_world_def example_contract_def
      example_idle_def example_config_def defer_depth_def defer_readOnly_def Let_def)

lemma example_recovered:
  "recovered_ComputeResult (example_returning res err') s1 = (Inr (res, err'), s1)"
  by (simp add: recovered_ComputeResult_def example_returning_def)

lemma example_run:
  "\<exists>ret e s'. Run (example_returning res err') example_contract [1] False (example_idle False)
        = (Inr (ret, e), s')"
proof -
  obtain s1 where s1: "Run_enter (example_returning res err') example_contract [1] False
      (example_idle False) = Entered False s1"
    using example_enter by blast
  then have q: "stateQueue s1 \<noteq> [] \<and> depth (evm s1) = 1 \<and> \<not> Debug (config s1)"
    by (auto simp: Run_enter_def example_returning_def example_world_def example_contract_def
        example_idle_def example_config_def Let_def split: if_splits)
  then show ?thesis
    by (simp add: Run_Entered [OF s1] Run_leave_def example_recovered Let_def
        defer_stateQueue_def)
qed

theorem Run_translates_return_code_witness:
  "(\<exists>ret s'. Run (example_returning ComputeTraceErrorCodeOk None) example_contract [1] False
        (example_idle False) = (Inr (ret, None), s'))
   \<and> (\<exists>ret s'. Run (example_returning ComputeTraceErrorCodeOutOfGas None) example_contract [1] False
        (example_idle False) = (Inr (ret, Some ErrOutOfGas), s'))
   \<and> (\<exists>ret s'. Run (example_returning ComputeTraceErrorCodeExecutionReverted None) example_contract
        [1] False (example_idle False) = (Inr (ret, Some ErrExecutionReverted), s'))
   \<and> (\<exists>ret s'. Run (example_returning ComputeTraceErrorCodeUnknown None) example_contract [1] False
        (example_idle False) = (Inr (ret, Some ErrExecutionReverted), s'))
   \<and> (\<exists>ret s'. Run (example_returning ComputeTraceErrorCodeStopToken None) example_contract [1]
        False (example_idle False) = (Inr (ret, None), s'))"
proof -
  have *: "\<exists>ret s'. Run (example_returning res None) example_contract [1] False
        (example_idle False)
      = (Inr (ret, (case res of
                ComputeTraceErrorCodeOutOfGas \<Rightarrow> Some ErrOutOfGas
              | ComputeTraceErrorCodeExecutionReverted \<Rightarrow> Some ErrExecutionReverted
              | ComputeTraceErrorCodeUnknown \<Rightarrow> Some ErrExecutionReverted
              | ComputeTraceErrorCodeStopToken \<Rightarrow> None
              | _ \<Rightarrow> (if None = Some errStopToken then None else None))), s')" for res
  proof -
    obtain s1 where s1: "Run_enter (example_returning res None) example_contract [1] False
        (example_idle False) = Entered False s1"
      using example_enter by blast
    obtain ret e s' where r: "Run (example_returning res None) example_contract [1] False
        (example_idle False) = (Inr (ret, e), s')"
      using example_run by blast
    from Run_translates_return_code [OF s1 example_recovered r] r show ?thesis
      by blast
  qed
  from * [of ComputeTraceErrorCodeOk] * [of ComputeTraceErrorCodeOutOfGas]
    * [of ComputeTraceErrorCodeExecutionReverted] * [of ComputeTraceErrorCodeUnknown]
    * [of ComputeTraceErrorCodeStopToken]
  show ?thesis by simp
qed

text \<open>
  C2 as stated fails for the code \<open>Ok\<close>: an error the engine returns beside it, and the
  error of a panic of a host callback (here the gas callback without debug mode, which
  leaves the zero code), are what \<open>Run\<close> returns.
\<close>

theorem Run_keeps_engine_error_counterexample:
  "fst (Run (example_returning ComputeTraceErrorCodeOk (Some (EngineError ''trap'')))
          example_contract [1] False (example_idle False))
     = Inr ([], Some (EngineError ''trap''))
   \<and> fst (Run example_charging example_contract [1] False (example_idle False))
     = Inr ([], Some ErrOutOfGas)"
  by code_simp


subsection \<open>C5: the scope queue and the depth\<close>










subsection \<open>C9: the read-only flag after Run\<close>

text \<open>
  C9. A call of \<open>Run\<close> with \<open>readOnly = false\<close> on an interpreter that is read-only (a
  nested call from a read-only context), for a contract with code: the call returns
  without error and leaves the interpreter's flag cleared, not as it was before the call.
\<close>

theorem Run_readOnly_not_restored:
  "readOnly (example_idle True) = True
   \<and> fst (Run (example_world 2) example_contract [1] False (example_idle True)) = Inr ([], None)
   \<and> readOnly (snd (Run (example_world 2) example_contract [1] False (example_idle True))) = False"
  by code_simp

end
